theory Spec2Isabelle
  imports Main "HOL-Library.Sublist"
begin

section \<open>Values of the Python program\<close>

text \<open>
  The bot polls a homework-status endpoint and forwards status changes to one Telegram
  chat (\<^verbatim>\<open>src/homework.py\<close>, \<^verbatim>\<open>src/exceptions.py\<close>). The payload it handles is
  whatever \<^verbatim>\<open>response.json()\<close> decodes, so the model starts with decoded JSON values:
  \<^verbatim>\<open>None\<close>, \<^verbatim>\<open>bool\<close>, \<^verbatim>\<open>int\<close>, \<^verbatim>\<open>float\<close>, \<^verbatim>\<open>str\<close>, \<^verbatim>\<open>list\<close> and \<^verbatim>\<open>dict\<close>
  with string keys. A \<^verbatim>\<open>dict\<close> is the list of its items; lookup takes the first item
  with the key, which is the only one in a decoded object.

  Python's \<^verbatim>\<open>str\<close> is modelled by \<^typ>\<open>string\<close> holding the UTF-8 encoding of the text:
  ASCII text is written as a literal, Cyrillic text as its bytes. The program never
  measures or indexes a string, it only concatenates them.
\<close>

datatype py_float = Float_finite int int | Float_inf bool | Float_nan

datatype json =
    JNull
  | JBool bool
  | JInt int
  | JFloat py_float
  | JStr string
  | JList "json list"
  | JDict "(string \<times> json) list"

text \<open>\<^verbatim>\<open>isinstance(v, dict)\<close> and \<^verbatim>\<open>isinstance(v, list)\<close>.\<close>

fun isinstance_dict :: "json \<Rightarrow> bool" where
  "isinstance_dict (JDict kv) = True"
| "isinstance_dict v = False"

fun isinstance_list :: "json \<Rightarrow> bool" where
  "isinstance_list (JList xs) = True"
| "isinstance_list v = False"

text \<open>\<^verbatim>\<open>type(v).__name__\<close>, and \<^verbatim>\<open>str(type(v))\<close> as an f-string prints it.\<close>

fun type_name :: "json \<Rightarrow> string" where
  "type_name JNull = ''NoneType''"
| "type_name (JBool b) = ''bool''"
| "type_name (JInt i) = ''int''"
| "type_name (JFloat f) = ''float''"
| "type_name (JStr s) = ''str''"
| "type_name (JList xs) = ''list''"
| "type_name (JDict kv) = ''dict''"

definition str_type :: "json \<Rightarrow> string" where
  "str_type v = ''<class '' @ [CHR 0x27] @ type_name v @ [CHR 0x27] @ ''>''"

text \<open>
  \<^verbatim>\<open>d.get(key)\<close> and \<^verbatim>\<open>d.get(key, default)\<close> on the items of a \<^verbatim>\<open>dict\<close>: the value
  stored under the key, else the default, which is \<^verbatim>\<open>None\<close> when not given. A key
  stored with the value \<^verbatim>\<open>None\<close> (JSON \<^verbatim>\<open>null\<close>) is returned as \<^verbatim>\<open>None\<close> too.
\<close>

definition dict_get_default :: "(string \<times> json) list \<Rightarrow> string \<Rightarrow> json \<Rightarrow> json" where
  "dict_get_default kv key dflt = (case map_of kv key of None \<Rightarrow> dflt | Some v \<Rightarrow> v)"

definition dict_get :: "(string \<times> json) list \<Rightarrow> string \<Rightarrow> json" where
  "dict_get kv key = dict_get_default kv key JNull"

subsection \<open>Printing values\<close>

text \<open>Decimal digits of an \<^verbatim>\<open>int\<close>, as \<^verbatim>\<open>str\<close> and f-strings print it.\<close>

definition digit_char :: "nat \<Rightarrow> char" where
  "digit_char d = ''0123456789'' ! d"

function str_nat :: "nat \<Rightarrow> string" where
  "str_nat n = (if n < 10 then [digit_char n] else str_nat (n div 10) @ [digit_char (n mod 10)])"
  by pat_completeness auto
termination
  by (relation "measure id") auto

declare str_nat.simps [simp del]

definition str_int :: "int \<Rightarrow> string" where
  "str_int i = (if i < 0 then ''-'' @ str_nat (nat (- i)) else str_nat (nat i))"

text \<open>
  \<^verbatim>\<open>str(v)\<close>, which is what \<^verbatim>\<open>f'{v}'\<close> inserts. A \<^verbatim>\<open>str\<close> is inserted as it is,
  \<^verbatim>\<open>None\<close>, booleans and integers have fixed spellings. For a \<^verbatim>\<open>float\<close>, a \<^verbatim>\<open>list\<close> or
  a \<^verbatim>\<open>dict\<close> Python prints \<^verbatim>\<open>repr(v)\<close>; the interpreter's \<^verbatim>\<open>repr\<close> (shortest float
  digits, quoting and escaping of strings by the Unicode tables) is not part of this
  repository and is a parameter \<open>rp\<close> of every function that prints such a value.
\<close>

fun py_str :: "(json \<Rightarrow> string) \<Rightarrow> json \<Rightarrow> string" where
  "py_str rp (JStr s) = s"
| "py_str rp JNull = ''None''"
| "py_str rp (JBool b) = (if b then ''True'' else ''False'')"
| "py_str rp (JInt i) = str_int i"
| "py_str rp v = rp v"

section \<open>Constants of homework.py\<close>

definition RETRY_TIME :: nat where
  "RETRY_TIME = 600"

definition ENDPOINT :: string where
  "ENDPOINT = ''https://practicum.yandex.ru/api/user_api/homework_statuses/''"

definition verdict_approved :: string where
  \<comment> \<open>homework.py line 36, in UTF-8\<close>
  "verdict_approved =
     [CHR 0xD0, CHR 0xA0, CHR 0xD0, CHR 0xB0, CHR 0xD0, CHR 0xB1, CHR 0xD0, CHR 0xBE,
      CHR 0xD1, CHR 0x82, CHR 0xD0, CHR 0xB0] @
     '' '' @
     [CHR 0xD0, CHR 0xBF, CHR 0xD1, CHR 0x80, CHR 0xD0, CHR 0xBE, CHR 0xD0, CHR 0xB2,
      CHR 0xD0, CHR 0xB5, CHR 0xD1, CHR 0x80, CHR 0xD0, CHR 0xB5, CHR 0xD0, CHR 0xBD,
      CHR 0xD0, CHR 0xB0] @
     '': '' @
     [CHR 0xD1, CHR 0x80, CHR 0xD0, CHR 0xB5, CHR 0xD0, CHR 0xB2, CHR 0xD1, CHR 0x8C,
      CHR 0xD1, CHR 0x8E, CHR 0xD0, CHR 0xB5, CHR 0xD1, CHR 0x80, CHR 0xD1, CHR 0x83] @
     '' '' @
     [CHR 0xD0, CHR 0xB2, CHR 0xD1, CHR 0x81, CHR 0xD1, CHR 0x91] @
     '' '' @
     [CHR 0xD0, CHR 0xBF, CHR 0xD0, CHR 0xBE, CHR 0xD0, CHR 0xBD, CHR 0xD1, CHR 0x80,
      CHR 0xD0, CHR 0xB0, CHR 0xD0, CHR 0xB2, CHR 0xD0, CHR 0xB8, CHR 0xD0, CHR 0xBB,
      CHR 0xD0, CHR 0xBE, CHR 0xD1, CHR 0x81, CHR 0xD1, CHR 0x8C] @
     ''. '' @
     [CHR 0xD0, CHR 0xA3, CHR 0xD1, CHR 0x80, CHR 0xD0, CHR 0xB0] @
     ''!''"

definition verdict_reviewing :: string where
  \<comment> \<open>homework.py line 37, in UTF-8\<close>
  "verdict_reviewing =
     [CHR 0xD0, CHR 0xA0, CHR 0xD0, CHR 0xB0, CHR 0xD0, CHR 0xB1, CHR 0xD0, CHR 0xBE,
      CHR 0xD1, CHR 0x82, CHR 0xD0, CHR 0xB0] @
     '' '' @
     [CHR 0xD0, CHR 0xB2, CHR 0xD0, CHR 0xB7, CHR 0xD1, CHR 0x8F, CHR 0xD1, CHR 0x82,
      CHR 0xD0, CHR 0xB0] @
     '' '' @
     [CHR 0xD0, CHR 0xBD, CHR 0xD0, CHR 0xB0] @
     '' '' @
     [CHR 0xD0, CHR 0xBF, CHR 0xD1, CHR 0x80, CHR 0xD0, CHR 0xBE, CHR 0xD0, CHR 0xB2,
      CHR 0xD0, CHR 0xB5, CHR 0xD1, CHR 0x80, CHR 0xD0, CHR 0xBA, CHR 0xD1, CHR 0x83] @
     '' '' @
     [CHR 0xD1, CHR 0x80, CHR 0xD0, CHR 0xB5, CHR 0xD0, CHR 0xB2, CHR 0xD1, CHR 0x8C,
      CHR 0xD1, CHR 0x8E, CHR 0xD0, CHR 0xB5, CHR 0xD1, CHR 0x80, CHR 0xD0, CHR 0xBE,
      CHR 0xD0, CHR 0xBC] @
     ''.''"

definition verdict_rejected :: string where
  \<comment> \<open>homework.py line 38, in UTF-8\<close>
  "verdict_rejected =
     [CHR 0xD0, CHR 0xA0, CHR 0xD0, CHR 0xB0, CHR 0xD0, CHR 0xB1, CHR 0xD0, CHR 0xBE,
      CHR 0xD1, CHR 0x82, CHR 0xD0, CHR 0xB0] @
     '' '' @
     [CHR 0xD0, CHR 0xBF, CHR 0xD1, CHR 0x80, CHR 0xD0, CHR 0xBE, CHR 0xD0, CHR 0xB2,
      CHR 0xD0, CHR 0xB5, CHR 0xD1, CHR 0x80, CHR 0xD0, CHR 0xB5, CHR 0xD0, CHR 0xBD,
      CHR 0xD0, CHR 0xB0] @
     '': '' @
     [CHR 0xD1, CHR 0x83] @
     '' '' @
     [CHR 0xD1, CHR 0x80, CHR 0xD0, CHR 0xB5, CHR 0xD0, CHR 0xB2, CHR 0xD1, CHR 0x8C,
      CHR 0xD1, CHR 0x8E, CHR 0xD0, CHR 0xB5, CHR 0xD1, CHR 0x80, CHR 0xD0, CHR 0xB0] @
     '' '' @
     [CHR 0xD0, CHR 0xB5, CHR 0xD1, CHR 0x81, CHR 0xD1, CHR 0x82, CHR 0xD1, CHR 0x8C] @
     '' '' @
     [CHR 0xD0, CHR 0xB7, CHR 0xD0, CHR 0xB0, CHR 0xD0, CHR 0xBC, CHR 0xD0, CHR 0xB5,
      CHR 0xD1, CHR 0x87, CHR 0xD0, CHR 0xB0, CHR 0xD0, CHR 0xBD, CHR 0xD0, CHR 0xB8,
      CHR 0xD1, CHR 0x8F] @
     ''.''"

definition txt_send_failed :: string where
  \<comment> \<open>homework.py line 56, in UTF-8\<close>
  "txt_send_failed =
     [CHR 0xD0, CHR 0x9E, CHR 0xD1, CHR 0x88, CHR 0xD0, CHR 0xB8, CHR 0xD0, CHR 0xB1,
      CHR 0xD0, CHR 0xBA, CHR 0xD0, CHR 0xB0] @
     '' '' @
     [CHR 0xD0, CHR 0xBF, CHR 0xD1, CHR 0x80, CHR 0xD0, CHR 0xB8] @
     '' '' @
     [CHR 0xD0, CHR 0xBE, CHR 0xD1, CHR 0x82, CHR 0xD0, CHR 0xBF, CHR 0xD1, CHR 0x80,
      CHR 0xD0, CHR 0xB0, CHR 0xD0, CHR 0xB2, CHR 0xD0, CHR 0xBA, CHR 0xD0, CHR 0xB5] @
     '' '' @
     [CHR 0xD1, CHR 0x81, CHR 0xD0, CHR 0xBE, CHR 0xD0, CHR 0xBE, CHR 0xD0, CHR 0xB1,
      CHR 0xD1, CHR 0x89, CHR 0xD0, CHR 0xB5, CHR 0xD0, CHR 0xBD, CHR 0xD0, CHR 0xB8,
      CHR 0xD1, CHR 0x8F] @
     '': ''"

definition txt_send_ok :: string where
  \<comment> \<open>homework.py line 58, in UTF-8\<close>
  "txt_send_ok =
     [CHR 0xD0, CHR 0xA1, CHR 0xD0, CHR 0xBE, CHR 0xD0, CHR 0xBE, CHR 0xD0, CHR 0xB1,
      CHR 0xD1, CHR 0x89, CHR 0xD0, CHR 0xB5, CHR 0xD0, CHR 0xBD, CHR 0xD0, CHR 0xB8,
      CHR 0xD0, CHR 0xB5] @
     '' '' @
     [CHR 0xD1, CHR 0x83, CHR 0xD1, CHR 0x81, CHR 0xD0, CHR 0xBF, CHR 0xD0, CHR 0xB5,
      CHR 0xD1, CHR 0x88, CHR 0xD0, CHR 0xBD, CHR 0xD0, CHR 0xBE] @
     '' '' @
     [CHR 0xD0, CHR 0xBE, CHR 0xD1, CHR 0x82, CHR 0xD0, CHR 0xBF, CHR 0xD1, CHR 0x80,
      CHR 0xD0, CHR 0xB0, CHR 0xD0, CHR 0xB2, CHR 0xD0, CHR 0xBB, CHR 0xD0, CHR 0xB5,
      CHR 0xD0, CHR 0xBD, CHR 0xD0, CHR 0xBE] @
     '' '' @
     [CHR 0xD0, CHR 0xB2] @
     '' '' @
     [CHR 0xD1, CHR 0x82, CHR 0xD0, CHR 0xB5, CHR 0xD0, CHR 0xBB, CHR 0xD0, CHR 0xB5,
      CHR 0xD0, CHR 0xB3, CHR 0xD1, CHR 0x80, CHR 0xD0, CHR 0xB0, CHR 0xD0, CHR 0xBC]"

definition txt_endpoint :: string where
  \<comment> \<open>homework.py line 71, in UTF-8\<close>
  "txt_endpoint =
     [CHR 0xD0, CHR 0xAD, CHR 0xD0, CHR 0xBD, CHR 0xD0, CHR 0xB4, CHR 0xD0, CHR 0xBF,
      CHR 0xD0, CHR 0xBE, CHR 0xD0, CHR 0xB8, CHR 0xD0, CHR 0xBD, CHR 0xD1, CHR 0x82] @
     '' ''"

definition txt_unavailable :: string where
  \<comment> \<open>homework.py line 71, in UTF-8\<close>
  "txt_unavailable =
     '' '' @
     [CHR 0xD0, CHR 0xBD, CHR 0xD0, CHR 0xB5, CHR 0xD0, CHR 0xB4, CHR 0xD0, CHR 0xBE,
      CHR 0xD1, CHR 0x81, CHR 0xD1, CHR 0x82, CHR 0xD1, CHR 0x83, CHR 0xD0, CHR 0xBF,
      CHR 0xD0, CHR 0xB5, CHR 0xD0, CHR 0xBD] @
     ''.''"

definition txt_response_code :: string where
  \<comment> \<open>homework.py line 72, in UTF-8\<close>
  "txt_response_code =
     [CHR 0xD0, CHR 0x9A, CHR 0xD0, CHR 0xBE, CHR 0xD0, CHR 0xB4] @
     '' '' @
     [CHR 0xD0, CHR 0xBE, CHR 0xD1, CHR 0x82, CHR 0xD0, CHR 0xB2, CHR 0xD0, CHR 0xB5,
      CHR 0xD1, CHR 0x82, CHR 0xD0, CHR 0xB0] @
     '': ''"

definition txt_request_failed :: string where
  \<comment> \<open>homework.py line 76, in UTF-8\<close>
  "txt_request_failed =
     [CHR 0xD0, CHR 0x9E, CHR 0xD1, CHR 0x88, CHR 0xD0, CHR 0xB8, CHR 0xD0, CHR 0xB1,
      CHR 0xD0, CHR 0xBA, CHR 0xD0, CHR 0xB0] @
     '' '' @
     [CHR 0xD0, CHR 0xBF, CHR 0xD1, CHR 0x80, CHR 0xD0, CHR 0xB8] @
     '' '' @
     [CHR 0xD0, CHR 0xB7, CHR 0xD0, CHR 0xB0, CHR 0xD0, CHR 0xBF, CHR 0xD1, CHR 0x80,
      CHR 0xD0, CHR 0xBE, CHR 0xD1, CHR 0x81, CHR 0xD0, CHR 0xB5] @
     '' '' @
     [CHR 0xD0, CHR 0xBA] @
     '' '' @
     [CHR 0xD0, CHR 0xBE, CHR 0xD1, CHR 0x81, CHR 0xD0, CHR 0xBD, CHR 0xD0, CHR 0xBE,
      CHR 0xD0, CHR 0xB2, CHR 0xD0, CHR 0xBD, CHR 0xD0, CHR 0xBE, CHR 0xD0, CHR 0xBC,
      CHR 0xD1, CHR 0x83] @
     '' API: ''"

definition txt_json_failed :: string where
  \<comment> \<open>homework.py line 78, in UTF-8\<close>
  "txt_json_failed =
     [CHR 0xD0, CHR 0x9E, CHR 0xD1, CHR 0x88, CHR 0xD0, CHR 0xB8, CHR 0xD0, CHR 0xB1,
      CHR 0xD0, CHR 0xBA, CHR 0xD0, CHR 0xB0] @
     '' '' @
     [CHR 0xD0, CHR 0xBF, CHR 0xD1, CHR 0x80, CHR 0xD0, CHR 0xB8] @
     '' '' @
     [CHR 0xD0, CHR 0xB4, CHR 0xD0, CHR 0xB5, CHR 0xD0, CHR 0xBA, CHR 0xD0, CHR 0xBE,
      CHR 0xD0, CHR 0xB4, CHR 0xD0, CHR 0xB8, CHR 0xD1, CHR 0x80, CHR 0xD0, CHR 0xBE,
      CHR 0xD0, CHR 0xB2, CHR 0xD0, CHR 0xB0, CHR 0xD0, CHR 0xBD, CHR 0xD0, CHR 0xB8,
      CHR 0xD0, CHR 0xB8] @
     '' JSON: ''"

definition txt_api_returns :: string where
  \<comment> \<open>homework.py line 87, in UTF-8\<close>
  "txt_api_returns =
     [CHR 0xD0, CHR 0x9E, CHR 0xD1, CHR 0x82, CHR 0xD0, CHR 0xB2, CHR 0xD0, CHR 0xB5,
      CHR 0xD1, CHR 0x82] @
     '' API '' @
     [CHR 0xD0, CHR 0xB2, CHR 0xD0, CHR 0xBE, CHR 0xD0, CHR 0xB7, CHR 0xD0, CHR 0xB2,
      CHR 0xD1, CHR 0x80, CHR 0xD0, CHR 0xB0, CHR 0xD1, CHR 0x89, CHR 0xD0, CHR 0xB0,
      CHR 0xD0, CHR 0xB5, CHR 0xD1, CHR 0x82] @
     '' ''"

definition txt_instead_of_dict :: string where
  \<comment> \<open>homework.py line 87, in UTF-8\<close>
  "txt_instead_of_dict =
     '' '' @
     [CHR 0xD0, CHR 0xB2, CHR 0xD0, CHR 0xBC, CHR 0xD0, CHR 0xB5, CHR 0xD1, CHR 0x81,
      CHR 0xD1, CHR 0x82, CHR 0xD0, CHR 0xBE] @
     '' dict''"

definition txt_no_current_date :: string where
  \<comment> \<open>homework.py line 89, in UTF-8\<close>
  "txt_no_current_date =
     [CHR 0xD0, CHR 0x92] @
     '' '' @
     [CHR 0xD0, CHR 0xBE, CHR 0xD1, CHR 0x82, CHR 0xD0, CHR 0xB2, CHR 0xD0, CHR 0xB5,
      CHR 0xD1, CHR 0x82, CHR 0xD0, CHR 0xB5] @
     '' API '' @
     [CHR 0xD0, CHR 0xBE, CHR 0xD1, CHR 0x82, CHR 0xD1, CHR 0x81, CHR 0xD1, CHR 0x83,
      CHR 0xD1, CHR 0x82, CHR 0xD1, CHR 0x81, CHR 0xD1, CHR 0x82, CHR 0xD0, CHR 0xB2,
      CHR 0xD1, CHR 0x83, CHR 0xD0, CHR 0xB5, CHR 0xD1, CHR 0x82] @
     '' '' @
     [CHR 0xD0, CHR 0xBA, CHR 0xD0, CHR 0xBB, CHR 0xD1, CHR 0x8E, CHR 0xD1, CHR 0x87] @
     '' current_date''"

definition txt_no_homework :: string where
  \<comment> \<open>homework.py line 92, in UTF-8\<close>
  "txt_no_homework =
     [CHR 0xD0, CHR 0x92] @
     '' '' @
     [CHR 0xD0, CHR 0xBE, CHR 0xD1, CHR 0x82, CHR 0xD0, CHR 0xB2, CHR 0xD0, CHR 0xB5,
      CHR 0xD1, CHR 0x82, CHR 0xD0, CHR 0xB5] @
     '' API '' @
     [CHR 0xD0, CHR 0xBE, CHR 0xD1, CHR 0x82, CHR 0xD1, CHR 0x81, CHR 0xD1, CHR 0x83,
      CHR 0xD1, CHR 0x82, CHR 0xD1, CHR 0x81, CHR 0xD1, CHR 0x82, CHR 0xD0, CHR 0xB2,
      CHR 0xD1, CHR 0x83, CHR 0xD0, CHR 0xB5, CHR 0xD1, CHR 0x82] @
     '' '' @
     [CHR 0xD0, CHR 0xBA, CHR 0xD0, CHR 0xBB, CHR 0xD1, CHR 0x8E, CHR 0xD1, CHR 0x87] @
     '' homework''"

definition txt_homework_is :: string where
  \<comment> \<open>homework.py line 95, in UTF-8\<close>
  "txt_homework_is =
     [CHR 0xD0, CHR 0x92] @
     '' '' @
     [CHR 0xD0, CHR 0xBE, CHR 0xD1, CHR 0x82, CHR 0xD0, CHR 0xB2, CHR 0xD0, CHR 0xB5,
      CHR 0xD1, CHR 0x82, CHR 0xD0, CHR 0xB5] @
     '' API homework '' @
     [CHR 0xD1, CHR 0x8F, CHR 0xD0, CHR 0xB2, CHR 0xD0, CHR 0xBB, CHR 0xD1, CHR 0x8F,
      CHR 0xD0, CHR 0xB5, CHR 0xD1, CHR 0x82, CHR 0xD1, CHR 0x81, CHR 0xD1, CHR 0x8F] @
     '' ''"

definition txt_instead_of_list :: string where
  \<comment> \<open>homework.py line 95, in UTF-8\<close>
  "txt_instead_of_list =
     '' '' @
     [CHR 0xD0, CHR 0xB2, CHR 0xD0, CHR 0xBC, CHR 0xD0, CHR 0xB5, CHR 0xD1, CHR 0x81,
      CHR 0xD1, CHR 0x82, CHR 0xD0, CHR 0xBE] @
     '' list''"

definition txt_no_homework_name :: string where
  \<comment> \<open>homework.py line 105, in UTF-8\<close>
  "txt_no_homework_name =
     [CHR 0xD0, CHR 0x92] @
     '' '' @
     [CHR 0xD0, CHR 0xBE, CHR 0xD1, CHR 0x82, CHR 0xD0, CHR 0xB2, CHR 0xD0, CHR 0xB5,
      CHR 0xD1, CHR 0x82, CHR 0xD0, CHR 0xB5] @
     '' API '' @
     [CHR 0xD0, CHR 0xBE, CHR 0xD1, CHR 0x82, CHR 0xD1, CHR 0x81, CHR 0xD1, CHR 0x83,
      CHR 0xD1, CHR 0x82, CHR 0xD1, CHR 0x81, CHR 0xD1, CHR 0x82, CHR 0xD0, CHR 0xB2,
      CHR 0xD1, CHR 0x83, CHR 0xD0, CHR 0xB5, CHR 0xD1, CHR 0x82] @
     '' '' @
     [CHR 0xD0, CHR 0xBA, CHR 0xD0, CHR 0xBB, CHR 0xD1, CHR 0x8E, CHR 0xD1, CHR 0x87] @
     '' homework_name''"

definition txt_status :: string where
  \<comment> \<open>homework.py line 107, in UTF-8\<close>
  "txt_status =
     [CHR 0xD0, CHR 0xA1, CHR 0xD1, CHR 0x82, CHR 0xD0, CHR 0xB0, CHR 0xD1, CHR 0x82,
      CHR 0xD1, CHR 0x83, CHR 0xD1, CHR 0x81] @
     '' ''"

definition txt_not_found :: string where
  \<comment> \<open>homework.py line 107, in UTF-8\<close>
  "txt_not_found =
     '' '' @
     [CHR 0xD0, CHR 0xBD, CHR 0xD0, CHR 0xB5] @
     '' '' @
     [CHR 0xD0, CHR 0xBD, CHR 0xD0, CHR 0xB0, CHR 0xD0, CHR 0xB9, CHR 0xD0, CHR 0xB4,
      CHR 0xD0, CHR 0xB5, CHR 0xD0, CHR 0xBD]"

definition txt_status_changed :: string where
  \<comment> \<open>homework.py line 109, up to the opening quote, in UTF-8\<close>
  "txt_status_changed =
     [CHR 0xD0, CHR 0x98, CHR 0xD0, CHR 0xB7, CHR 0xD0, CHR 0xBC, CHR 0xD0, CHR 0xB5,
      CHR 0xD0, CHR 0xBD, CHR 0xD0, CHR 0xB8, CHR 0xD0, CHR 0xBB, CHR 0xD1, CHR 0x81,
      CHR 0xD1, CHR 0x8F] @
     '' '' @
     [CHR 0xD1, CHR 0x81, CHR 0xD1, CHR 0x82, CHR 0xD0, CHR 0xB0, CHR 0xD1, CHR 0x82,
      CHR 0xD1, CHR 0x83, CHR 0xD1, CHR 0x81] @
     '' '' @
     [CHR 0xD0, CHR 0xBF, CHR 0xD1, CHR 0x80, CHR 0xD0, CHR 0xBE, CHR 0xD0, CHR 0xB2,
      CHR 0xD0, CHR 0xB5, CHR 0xD1, CHR 0x80, CHR 0xD0, CHR 0xBA, CHR 0xD0, CHR 0xB8] @
     '' '' @
     [CHR 0xD1, CHR 0x80, CHR 0xD0, CHR 0xB0, CHR 0xD0, CHR 0xB1, CHR 0xD0, CHR 0xBE,
      CHR 0xD1, CHR 0x82, CHR 0xD1, CHR 0x8B] @
     '' '' @
     [CHR 0x22]"

definition txt_program_failure :: string where
  \<comment> \<open>homework.py lines 137 and 139, in UTF-8\<close>
  "txt_program_failure =
     [CHR 0xD0, CHR 0xA1, CHR 0xD0, CHR 0xB1, CHR 0xD0, CHR 0xBE, CHR 0xD0, CHR 0xB9] @
     '' '' @
     [CHR 0xD0, CHR 0xB2] @
     '' '' @
     [CHR 0xD1, CHR 0x80, CHR 0xD0, CHR 0xB0, CHR 0xD0, CHR 0xB1, CHR 0xD0, CHR 0xBE,
      CHR 0xD1, CHR 0x82, CHR 0xD0, CHR 0xB5] @
     '' '' @
     [CHR 0xD0, CHR 0xBF, CHR 0xD1, CHR 0x80, CHR 0xD0, CHR 0xBE, CHR 0xD0, CHR 0xB3,
      CHR 0xD1, CHR 0x80, CHR 0xD0, CHR 0xB0, CHR 0xD0, CHR 0xBC, CHR 0xD0, CHR 0xBC,
      CHR 0xD1, CHR 0x8B] @
     '': ''"

definition HOMEWORK_VERDICTS :: "(string \<times> string) list" where
  "HOMEWORK_VERDICTS =
     [(''approved'', verdict_approved),
      (''reviewing'', verdict_reviewing),
      (''rejected'', verdict_rejected)]"

section \<open>Exceptions\<close>

text \<open>
  The classes of \<^verbatim>\<open>exceptions.py\<close> and the built-in classes the program raises. An
  exception value is its class and the one argument it was constructed with.
  \<^verbatim>\<open>TelegramMessageError\<close> and \<^verbatim>\<open>CurrentDateError\<close> derive from
  \<^verbatim>\<open>NoMessageToTelegram\<close>; every class derives from \<^verbatim>\<open>Exception\<close>.
\<close>

datatype exc_class =
    NoMessageToTelegram
  | TelegramMessageError
  | JSONError
  | RequestAPIError
  | CurrentDateError
  | TypeError
  | KeyError
  | AttributeError

datatype exc = Exc (exc_class: exc_class) (exc_arg: string)

fun isinstance_NoMessageToTelegram :: "exc \<Rightarrow> bool" where
  "isinstance_NoMessageToTelegram (Exc c m) =
     (c = NoMessageToTelegram \<or> c = TelegramMessageError \<or> c = CurrentDateError)"

text \<open>
  \<^verbatim>\<open>str(error)\<close>: the argument, except that \<^verbatim>\<open>KeyError\<close> prints the \<^verbatim>\<open>repr\<close> of
  its argument (the text in quotes).
\<close>

fun str_exc :: "(json \<Rightarrow> string) \<Rightarrow> exc \<Rightarrow> string" where
  "str_exc rp (Exc c m) = (if c = KeyError then rp (JStr m) else m)"

text \<open>
  The messages the interpreter itself gives: calling \<^verbatim>\<open>.get\<close> on a value that is not a
  \<^verbatim>\<open>dict\<close>, and testing membership of an unhashable value in a \<^verbatim>\<open>dict\<close>.
\<close>

definition no_attribute_get :: "json \<Rightarrow> exc" where
  "no_attribute_get v =
     Exc AttributeError
       ([CHR 0x27] @ type_name v @ [CHR 0x27] @ '' object has no attribute '' @
        [CHR 0x27] @ ''get'' @ [CHR 0x27])"

definition unhashable :: "json \<Rightarrow> exc" where
  "unhashable v =
     Exc TypeError (''unhashable type: '' @ [CHR 0x27] @ type_name v @ [CHR 0x27])"

section \<open>The outside world\<close>

text \<open>
  What the libraries report. \<^verbatim>\<open>requests.get\<close> either raises a
  \<^verbatim>\<open>RequestException\<close> (its text is kept) or returns a response with a status code
  and a body, whose \<^verbatim>\<open>.json()\<close> either raises \<^verbatim>\<open>JSONDecodeError\<close> or decodes.
  \<^verbatim>\<open>bot.send_message\<close> returns, or raises a \<^verbatim>\<open>TelegramError\<close> with a text.
\<close>

datatype http_body = Body_json json | Body_invalid string

datatype http_result = Request_raises string | Http_response int http_body

datatype lib_exc = RequestException string | HTTPError string | JSONDecodeError string

fun isinstance_RequestException :: "lib_exc \<Rightarrow> bool" where
  "isinstance_RequestException (RequestException m) = True"
| "isinstance_RequestException (HTTPError m) = True"
| "isinstance_RequestException (JSONDecodeError m) = False"

fun str_lib_exc :: "lib_exc \<Rightarrow> string" where
  "str_lib_exc (RequestException m) = m"
| "str_lib_exc (HTTPError m) = m"
| "str_lib_exc (JSONDecodeError m) = m"

datatype level = INFO | ERROR

datatype event = Bot_send string | Log level string | Sleep nat

record env =
  requests_get :: "json \<Rightarrow> http_result"
  now :: int
  bot :: "string \<Rightarrow> string option"

section \<open>The functions of homework.py\<close>

subsection \<open>send_message\<close>

definition send_message :: "(string \<Rightarrow> string option) \<Rightarrow> string \<Rightarrow> event list \<times> (exc + unit)" where
  "send_message b message =
     (case b message of
        Some error \<Rightarrow>
          ([Bot_send message], Inl (Exc TelegramMessageError (txt_send_failed @ error)))
      | None \<Rightarrow> ([Bot_send message, Log INFO txt_send_ok], Inr ()))"

subsection \<open>get_api_answer\<close>

text \<open>
  The body of the \<^verbatim>\<open>try\<close>, then the two \<^verbatim>\<open>except\<close> clauses in their order. The
  \<^verbatim>\<open>HTTPError\<close> raised for a status other than 200 is a \<^verbatim>\<open>RequestException\<close> and is
  caught by the first clause like a failure of the transport.
\<close>

definition get_api_answer_try :: "http_result \<Rightarrow> lib_exc + json" where
  "get_api_answer_try homework_statuses =
     (case homework_statuses of
        Request_raises m \<Rightarrow> Inl (RequestException m)
      | Http_response status_code body \<Rightarrow>
          if status_code \<noteq> 200
          then Inl (HTTPError (txt_endpoint @ ENDPOINT @ txt_unavailable @
                               txt_response_code @ str_int status_code))
          else (case body of
                  Body_invalid m \<Rightarrow> Inl (JSONDecodeError m)
                | Body_json v \<Rightarrow> Inr v))"

definition get_api_answer :: "(json \<Rightarrow> http_result) \<Rightarrow> json \<Rightarrow> exc + json" where
  "get_api_answer get current_timestamp =
     (case get_api_answer_try (get current_timestamp) of
        Inr v \<Rightarrow> Inr v
      | Inl error \<Rightarrow>
          if isinstance_RequestException error
          then Inl (Exc RequestAPIError (txt_request_failed @ str_lib_exc error))
          else Inl (Exc JSONError (txt_json_failed @ str_lib_exc error)))"

subsection \<open>check_response\<close>

definition check_response :: "json \<Rightarrow> exc + json list" where
  "check_response response =
     (case response of
        JDict kv \<Rightarrow>
          if dict_get kv ''current_date'' = JNull
          then Inl (Exc CurrentDateError txt_no_current_date)
          else (case dict_get kv ''homeworks'' of
                  JNull \<Rightarrow> Inl (Exc KeyError txt_no_homework)
                | JList homeworks \<Rightarrow> Inr homeworks
                | v \<Rightarrow> Inl (Exc TypeError (txt_homework_is @ str_type v @ txt_instead_of_list)))
      | v \<Rightarrow> Inl (Exc TypeError (txt_api_returns @ str_type v @ txt_instead_of_dict)))"

subsection \<open>parse_status\<close>

text \<open>
  \<^verbatim>\<open>homework_status not in HOMEWORK_VERDICTS\<close> hashes the status first: a \<^verbatim>\<open>list\<close> or a
  \<^verbatim>\<open>dict\<close> raises \<^verbatim>\<open>TypeError\<close>. The keys are strings, so no other value than a
  string is found. The subscript \<^verbatim>\<open>HOMEWORK_VERDICTS[homework_status]\<close> two lines
  later reads the same key of the same constant table, so it yields the entry exactly
  when the membership test found one: \<open>Inr None\<close> is "not in", \<open>Inr (Some verdict)\<close>
  is "in", with the entry.
\<close>

fun lookup_HOMEWORK_VERDICTS :: "json \<Rightarrow> exc + string option" where
  "lookup_HOMEWORK_VERDICTS (JStr s) = Inr (map_of HOMEWORK_VERDICTS s)"
| "lookup_HOMEWORK_VERDICTS (JList xs) = Inl (unhashable (JList xs))"
| "lookup_HOMEWORK_VERDICTS (JDict kv) = Inl (unhashable (JDict kv))"
| "lookup_HOMEWORK_VERDICTS v = Inr None"

definition parse_status :: "(json \<Rightarrow> string) \<Rightarrow> json \<Rightarrow> exc + string" where
  "parse_status rp homework =
     (case homework of
        JDict kv \<Rightarrow>
          (let homework_name = dict_get kv ''homework_name'';
               homework_status = dict_get kv ''status''
           in if homework_name = JNull
              then Inl (Exc KeyError txt_no_homework_name)
              else (case lookup_HOMEWORK_VERDICTS homework_status of
                      Inl error \<Rightarrow> Inl error
                    | Inr None \<Rightarrow>
                        Inl (Exc KeyError (txt_status @ py_str rp homework_status @ txt_not_found))
                    | Inr (Some verdict) \<Rightarrow>
                        Inr (txt_status_changed @ py_str rp homework_name @
                             [CHR 0x22] @ ''. '' @ verdict)))
      | v \<Rightarrow> Inl (no_attribute_get v))"

subsection \<open>main: one pass through the body of the loop\<close>

text \<open>
  The variables that live across iterations are \<^verbatim>\<open>current_timestamp\<close> and
  \<^verbatim>\<open>last_error\<close>. \<^verbatim>\<open>last_error\<close> holds an exception object, and
  \<^verbatim>\<open>last_error != error\<close> compares two objects of classes that define no
  \<^verbatim>\<open>__eq__\<close>: Python then compares identities. An object is therefore modelled with
  its identity, a number drawn from the counter \<open>next_obj\<close> when the handler binds
  the exception that the iteration raised (every \<^verbatim>\<open>raise\<close> of the program constructs
  a new object). \<^verbatim>\<open>None != error\<close> is true.
\<close>

type_synonym exc_obj = "nat \<times> exc"

record loop_state =
  current_timestamp :: json
  last_error :: "exc_obj option"
  next_obj :: nat

fun py_ne :: "exc_obj option \<Rightarrow> exc_obj \<Rightarrow> bool" where
  "py_ne None error = True"
| "py_ne (Some (i, e)) (j, e') = (i \<noteq> j)"

text \<open>
  The body of the \<^verbatim>\<open>try\<close> (lines 131 to 135): the events it caused, the variables
  after it, and the exception it raised, if any. \<^verbatim>\<open>response.get\<close> on a value that is
  not a \<^verbatim>\<open>dict\<close> raises before anything is assigned.
\<close>

definition try_body :: "(json \<Rightarrow> string) \<Rightarrow> env \<Rightarrow> loop_state \<Rightarrow> event list \<times> loop_state \<times> (exc + unit)" where
  "try_body rp w st =
     (case get_api_answer (requests_get w) (current_timestamp st) of
        Inl error \<Rightarrow> ([], st, Inl error)
      | Inr response \<Rightarrow>
          (case response of
             JDict kv \<Rightarrow>
               (let st1 = st\<lparr>current_timestamp := dict_get_default kv ''current_date'' (JInt (now w))\<rparr>
                in case check_response response of
                     Inl error \<Rightarrow> ([], st1, Inl error)
                   | Inr homeworks \<Rightarrow>
                       (case homeworks of
                          [] \<Rightarrow> ([], st1, Inr ())
                        | homework # rest \<Rightarrow>
                            (case parse_status rp homework of
                               Inl error \<Rightarrow> ([], st1, Inl error)
                             | Inr message \<Rightarrow>
                                 (case send_message (bot w) message of
                                    (evs, r) \<Rightarrow> (evs, st1, r)))))
           | v \<Rightarrow> ([], st, Inl (no_attribute_get v))))"

text \<open>
  The handlers and the \<^verbatim>\<open>finally\<close> clause. The third component is the exception
  that leaves the \<^verbatim>\<open>try\<close> statement, if any: one raised inside a handler is not
  caught by the other clauses of the same \<^verbatim>\<open>try\<close>, so after the \<^verbatim>\<open>finally\<close> it
  leaves the \<^verbatim>\<open>while\<close> loop and \<^verbatim>\<open>main\<close>.
\<close>

definition main_iteration :: "(json \<Rightarrow> string) \<Rightarrow> env \<Rightarrow> loop_state \<Rightarrow> event list \<times> loop_state \<times> exc option" where
  "main_iteration rp w st =
     (case try_body rp w st of
        (evs, st1, Inr u) \<Rightarrow> (evs @ [Sleep RETRY_TIME], st1, None)
      | (evs, st1, Inl e) \<Rightarrow>
          if isinstance_NoMessageToTelegram e
          then (evs @ [Log ERROR (txt_program_failure @ str_exc rp e), Sleep RETRY_TIME], st1, None)
          else
            (let error = (next_obj st1, e);
                 st2 = st1\<lparr>next_obj := Suc (next_obj st1)\<rparr>;
                 message = txt_program_failure @ str_exc rp e
             in if py_ne (last_error st2) error
                then (case send_message (bot w) message of
                        (evs2, Inl e2) \<Rightarrow>
                          (evs @ [Log ERROR message] @ evs2 @ [Sleep RETRY_TIME], st2, Some e2)
                      | (evs2, Inr u) \<Rightarrow>
                          (evs @ [Log ERROR message] @ evs2 @ [Sleep RETRY_TIME],
                           st2\<lparr>last_error := Some error\<rparr>, None))
                else (evs @ [Log ERROR message, Sleep RETRY_TIME], st2, None)))"

subsection \<open>main: the loop\<close>

text \<open>
  \<^verbatim>\<open>while True\<close> has no exit of its own. The loop is run over the list of what the
  outside world does in each successive iteration; it stops before the list is used up
  only when an exception leaves an iteration.
\<close>

fun main_loop :: "(json \<Rightarrow> string) \<Rightarrow> loop_state \<Rightarrow> env list \<Rightarrow> event list \<times> loop_state \<times> exc option" where
  "main_loop rp st [] = ([], st, None)"
| "main_loop rp st (w # ws) =
     (case main_iteration rp w st of
        (evs, st', Some e) \<Rightarrow> (evs, st', Some e)
      | (evs, st', None) \<Rightarrow>
          (case main_loop rp st' ws of (evs2, st2, r) \<Rightarrow> (evs @ evs2, st2, r)))"

text \<open>The variables as \<^verbatim>\<open>main\<close> sets them before the loop (lines 127 and 128).\<close>

definition initial_state :: "int \<Rightarrow> loop_state" where
  "initial_state t = \<lparr>current_timestamp = JInt t, last_error = None, next_obj = 0\<rparr>"

text \<open>The messages handed to \<^verbatim>\<open>bot.send_message\<close>, in order.\<close>

fun sent :: "event list \<Rightarrow> string list" where
  "sent [] = []"
| "sent (Bot_send m # evs) = m # sent evs"
| "sent (ev # evs) = sent evs"

section \<open>check_response on a store\<close>

text \<open>
  Whether \<^verbatim>\<open>check_response\<close> changes the object it is given cannot be read off a
  function from values to values. For that question the function is translated a second
  time, statement by statement, over a store: a \<^verbatim>\<open>list\<close> or a \<^verbatim>\<open>dict\<close> is an object
  at an address, a value is \<^verbatim>\<open>None\<close>, a number, a string or a reference to such an
  object, and every operation takes the store and returns the store it leaves. An
  assignment to an item would return an updated store \<open>h(r := c)\<close>.
\<close>

datatype val = VNone | VBool bool | VInt int | VFloat py_float | VStr string | VRef nat

datatype container = CList "val list" | CDict "(string \<times> val) list"

type_synonym heap = "nat \<Rightarrow> container"

text \<open>\<^verbatim>\<open>type(v).__name__\<close> of a value in a store.\<close>

fun val_type_name :: "heap \<Rightarrow> val \<Rightarrow> string" where
  "val_type_name h VNone = ''NoneType''"
| "val_type_name h (VBool b) = ''bool''"
| "val_type_name h (VInt i) = ''int''"
| "val_type_name h (VFloat f) = ''float''"
| "val_type_name h (VStr s) = ''str''"
| "val_type_name h (VRef r) = (case h r of CList vs \<Rightarrow> ''list'' | CDict kv \<Rightarrow> ''dict'')"

definition no_attribute_get_val :: "heap \<Rightarrow> val \<Rightarrow> exc" where
  "no_attribute_get_val h v =
     Exc AttributeError
       ([CHR 0x27] @ val_type_name h v @ [CHR 0x27] @ '' object has no attribute '' @
        [CHR 0x27] @ ''get'' @ [CHR 0x27])"

text \<open>
  Statements in sequence: the second runs in the store the first left, unless the first
  raised.
\<close>

definition py_return :: "'a \<Rightarrow> heap \<Rightarrow> (exc + 'a) \<times> heap" where
  "py_return a h = (Inr a, h)"

definition py_raise :: "exc \<Rightarrow> heap \<Rightarrow> (exc + 'a) \<times> heap" where
  "py_raise e h = (Inl e, h)"

definition py_bind :: "(heap \<Rightarrow> (exc + 'a) \<times> heap) \<Rightarrow> ('a \<Rightarrow> heap \<Rightarrow> (exc + 'b) \<times> heap) \<Rightarrow>
    heap \<Rightarrow> (exc + 'b) \<times> heap" where
  "py_bind m f h = (case m h of (Inl e, h') \<Rightarrow> (Inl e, h') | (Inr a, h') \<Rightarrow> f a h')"

text \<open>
  The operations that lines 86 to 97 use: \<^verbatim>\<open>isinstance\<close>, \<^verbatim>\<open>type\<close> printed in an
  f-string, and \<^verbatim>\<open>.get\<close>, which raises \<^verbatim>\<open>AttributeError\<close> on a value that is not a
  \<^verbatim>\<open>dict\<close>. Each of them reads the store and leaves it as it is.
\<close>

definition py_isinstance_dict :: "val \<Rightarrow> heap \<Rightarrow> (exc + bool) \<times> heap" where
  "py_isinstance_dict v h = (Inr (val_type_name h v = ''dict''), h)"

definition py_isinstance_list :: "val \<Rightarrow> heap \<Rightarrow> (exc + bool) \<times> heap" where
  "py_isinstance_list v h = (Inr (val_type_name h v = ''list''), h)"

definition py_str_type :: "val \<Rightarrow> heap \<Rightarrow> (exc + string) \<times> heap" where
  "py_str_type v h =
     (Inr (''<class '' @ [CHR 0x27] @ val_type_name h v @ [CHR 0x27] @ ''>''), h)"

definition py_get :: "val \<Rightarrow> string \<Rightarrow> heap \<Rightarrow> (exc + val) \<times> heap" where
  "py_get v key h =
     (case v of
        VRef r \<Rightarrow>
          (case h r of
             CDict kv \<Rightarrow> (Inr (case map_of kv key of None \<Rightarrow> VNone | Some x \<Rightarrow> x), h)
           | CList vs \<Rightarrow> (Inl (no_attribute_get_val h v), h))
      | scalar \<Rightarrow> (Inl (no_attribute_get_val h v), h))"

text \<open>Lines 86 to 97. The result is the very object stored under \<^verbatim>\<open>homeworks\<close>.\<close>

definition check_response_heap :: "val \<Rightarrow> heap \<Rightarrow> (exc + val) \<times> heap" where
  "check_response_heap response =
     py_bind (py_isinstance_dict response) (\<lambda>is_dict.
       if \<not> is_dict
       then py_bind (py_str_type response) (\<lambda>t.
              py_raise (Exc TypeError (txt_api_returns @ t @ txt_instead_of_dict)))
       else
         py_bind (py_get response ''current_date'') (\<lambda>current_date.
           if current_date = VNone
           then py_raise (Exc CurrentDateError txt_no_current_date)
           else
             py_bind (py_get response ''homeworks'') (\<lambda>homeworks.
               if homeworks = VNone
               then py_raise (Exc KeyError txt_no_homework)
               else
                 py_bind (py_isinstance_list homeworks) (\<lambda>is_list.
                   if \<not> is_list
                   then py_bind (py_str_type homeworks) (\<lambda>t.
                          py_raise (Exc TypeError (txt_homework_is @ t @ txt_instead_of_list)))
                   else py_return homeworks))))"

text \<open>
  The decoded JSON value that a value of a store stands for, read to a depth of at most
  \<open>n\<close> nested containers.
\<close>

fun json_of :: "nat \<Rightarrow> heap \<Rightarrow> val \<Rightarrow> json option" where
  "json_of n h VNone = Some JNull"
| "json_of n h (VBool b) = Some (JBool b)"
| "json_of n h (VInt i) = Some (JInt i)"
| "json_of n h (VFloat f) = Some (JFloat f)"
| "json_of n h (VStr s) = Some (JStr s)"
| "json_of 0 h (VRef r) = None"
| "json_of (Suc n) h (VRef r) =
     (case h r of
        CList vs \<Rightarrow> map_option JList (those (map (json_of n h) vs))
      | CDict kv \<Rightarrow>
          map_option JDict (those (map (\<lambda>(k, x). map_option (Pair k) (json_of n h x)) kv)))"

section \<open>Notions used in the statements\<close>

text \<open>
  A key is absent, or is stored with the value \<^verbatim>\<open>None\<close>: the two cases in which
  \<^verbatim>\<open>d.get(key)\<close> is \<^verbatim>\<open>None\<close>.
\<close>

definition absent_or_null :: "(string \<times> json) list \<Rightarrow> string \<Rightarrow> bool" where
  "absent_or_null kv key = (map_of kv key = None \<or> map_of kv key = Some JNull)"

text \<open>The values Python cannot hash: lists and dicts.\<close>

fun unhashable_value :: "json \<Rightarrow> bool" where
  "unhashable_value (JList xs) = True"
| "unhashable_value (JDict kv) = True"
| "unhashable_value v = False"

text \<open>
  The state a run of the loop can be in: the object remembered in \<^verbatim>\<open>last_error\<close> was
  created before any object still to be created.
\<close>

definition state_ok :: "loop_state \<Rightarrow> bool" where
  "state_ok st = (case last_error st of None \<Rightarrow> True | Some (i, e) \<Rightarrow> i < next_obj st)"

subsection \<open>Concrete inputs\<close>

text \<open>
  An outside world that answers every request with \<open>h\<close>, shows the clock \<open>t\<close> and
  whose bot answers every message with \<open>b\<close>.
\<close>

definition world :: "http_result \<Rightarrow> int \<Rightarrow> string option \<Rightarrow> env" where
  "world h t b = \<lparr>requests_get = (\<lambda>cursor. h), now = t, bot = (\<lambda>message. b)\<rparr>"

text \<open>
  A stand-in for \<^verbatim>\<open>repr\<close> in the evaluations: a string in single quotes, which is
  Python's \<^verbatim>\<open>repr\<close> of a string of printable characters without quotes and
  backslashes; no evaluation below prints a float, a list or a dict.
\<close>

fun repr_plain :: "json \<Rightarrow> string" where
  "repr_plain (JStr s) = [CHR 0x27] @ s @ [CHR 0x27]"
| "repr_plain v = ''...''"

text \<open>The responses of the end-to-end scenarios.\<close>

definition response_approved :: json where
  "response_approved =
     JDict [(''homeworks'',
             JList [JDict [(''homework_name'', JStr ''hw1''), (''status'', JStr ''approved'')]]),
            (''current_date'', JInt 1000)]"

definition response_empty :: json where
  "response_empty = JDict [(''homeworks'', JList []), (''current_date'', JInt 1000)]"

definition scenario_1_message :: string where
  \<comment> \<open>the message of end-to-end scenario 1, in UTF-8\<close>
  "scenario_1_message =
     [CHR 0xD0, CHR 0x98, CHR 0xD0, CHR 0xB7, CHR 0xD0, CHR 0xBC, CHR 0xD0, CHR 0xB5,
      CHR 0xD0, CHR 0xBD, CHR 0xD0, CHR 0xB8, CHR 0xD0, CHR 0xBB, CHR 0xD1, CHR 0x81,
      CHR 0xD1, CHR 0x8F] @
     '' '' @
     [CHR 0xD1, CHR 0x81, CHR 0xD1, CHR 0x82, CHR 0xD0, CHR 0xB0, CHR 0xD1, CHR 0x82,
      CHR 0xD1, CHR 0x83, CHR 0xD1, CHR 0x81] @
     '' '' @
     [CHR 0xD0, CHR 0xBF, CHR 0xD1, CHR 0x80, CHR 0xD0, CHR 0xBE, CHR 0xD0, CHR 0xB2,
      CHR 0xD0, CHR 0xB5, CHR 0xD1, CHR 0x80, CHR 0xD0, CHR 0xBA, CHR 0xD0, CHR 0xB8] @
     '' '' @
     [CHR 0xD1, CHR 0x80, CHR 0xD0, CHR 0xB0, CHR 0xD0, CHR 0xB1, CHR 0xD0, CHR 0xBE,
      CHR 0xD1, CHR 0x82, CHR 0xD1, CHR 0x8B] @
     '' '' @
     [CHR 0x22] @
     ''hw1'' @
     [CHR 0x22] @
     ''. '' @
     [CHR 0xD0, CHR 0xA0, CHR 0xD0, CHR 0xB0, CHR 0xD0, CHR 0xB1, CHR 0xD0, CHR 0xBE,
      CHR 0xD1, CHR 0x82, CHR 0xD0, CHR 0xB0] @
     '' '' @
     [CHR 0xD0, CHR 0xBF, CHR 0xD1, CHR 0x80, CHR 0xD0, CHR 0xBE, CHR 0xD0, CHR 0xB2,
      CHR 0xD0, CHR 0xB5, CHR 0xD1, CHR 0x80, CHR 0xD0, CHR 0xB5, CHR 0xD0, CHR 0xBD,
      CHR 0xD0, CHR 0xB0] @
     '': '' @
     [CHR 0xD1, CHR 0x80, CHR 0xD0, CHR 0xB5, CHR 0xD0, CHR 0xB2, CHR 0xD1, CHR 0x8C,
      CHR 0xD1, CHR 0x8E, CHR 0xD0, CHR 0xB5, CHR 0xD1, CHR 0x80, CHR 0xD1, CHR 0x83] @
     '' '' @
     [CHR 0xD0, CHR 0xB2, CHR 0xD1, CHR 0x81, CHR 0xD1, CHR 0x91] @
     '' '' @
     [CHR 0xD0, CHR 0xBF, CHR 0xD0, CHR 0xBE, CHR 0xD0, CHR 0xBD, CHR 0xD1, CHR 0x80,
      CHR 0xD0, CHR 0xB0, CHR 0xD0, CHR 0xB2, CHR 0xD0, CHR 0xB8, CHR 0xD0, CHR 0xBB,
      CHR 0xD0, CHR 0xBE, CHR 0xD1, CHR 0x81, CHR 0xD1, CHR 0x8C] @
     ''. '' @
     [CHR 0xD0, CHR 0xA3, CHR 0xD1, CHR 0x80, CHR 0xD0, CHR 0xB0] @
     ''!''"

text \<open>The response of scenario 1 as objects in a store, the response at address 0.\<close>

definition heap_approved :: heap where
  "heap_approved =
     (\<lambda>r. CList [])
       (0 := CDict [(''homeworks'', VRef 1), (''current_date'', VInt 1000)],
        1 := CList [VRef 2],
        2 := CDict [(''homework_name'', VStr ''hw1''), (''status'', VStr ''approved'')])"

text \<open>A response without the cursor key.\<close>

definition response_no_cursor :: json where
  "response_no_cursor = JDict [(''homeworks'', JList [])]"

text \<open>The message of a fetch answered with status 500, and the failure report on it.\<close>

definition unavailable_500 :: string where
  "unavailable_500 = txt_endpoint @ ENDPOINT @ txt_unavailable @ txt_response_code @ ''500''"

definition report_500 :: string where
  "report_500 = txt_program_failure @ txt_request_failed @ unavailable_500"

section \<open>Auxiliary facts\<close>

subsection \<open>Evaluation\<close>

lemma world_simps [simp]:
  "requests_get (world h t b) c = h" "now (world h t b) = t" "bot (world h t b) m = b"
  by (simp_all add: world_def)

lemma str_int_500: "str_int 500 = ''500''"
  by (simp add: str_int_def str_nat.simps digit_char_def)

lemma fetch_500:
  "get_api_answer (requests_get (world (Http_response 500 body) t b)) c =
     Inl (Exc RequestAPIError (txt_request_failed @ unavailable_500))"
  by (simp add: get_api_answer_def get_api_answer_try_def unavailable_500_def str_int_500)

lemma fetch_200:
  "get_api_answer (requests_get (world (Http_response 200 (Body_json v)) t b)) c = Inr v"
  by (simp add: get_api_answer_def get_api_answer_try_def)

lemma parse_status_hw1:
  "parse_status rp (JDict [(''homework_name'', JStr ''hw1''), (''status'', JStr ''approved'')]) =
     Inr scenario_1_message"
  by (simp add: parse_status_def dict_get_def dict_get_default_def HOMEWORK_VERDICTS_def Let_def
      scenario_1_message_def txt_status_changed_def verdict_approved_def)

lemma sent_log_sleep: "sent (xs @ [Log l t, Sleep n]) = sent xs"
  by (induction xs rule: sent.induct) simp_all

subsection \<open>Which exceptions each function raises\<close>

lemma get_api_answer_raises:
  assumes "get_api_answer g c = Inl e"
  shows "\<not> isinstance_NoMessageToTelegram e"
  using assms
  by (auto simp: get_api_answer_def split: sum.splits if_splits)

lemma check_response_raises:
  assumes "check_response r = Inl e" and "isinstance_NoMessageToTelegram e"
  shows "e = Exc CurrentDateError txt_no_current_date"
  using assms
  by (auto simp: check_response_def split: json.splits if_splits)

lemma lookup_HOMEWORK_VERDICTS_raises:
  assumes "lookup_HOMEWORK_VERDICTS v = Inl e"
  shows "\<not> isinstance_NoMessageToTelegram e"
  using assms by (cases v) (auto simp: unhashable_def)

lemma parse_status_raises:
  assumes "parse_status rp h = Inl e"
  shows "\<not> isinstance_NoMessageToTelegram e"
proof (cases h)
  case (JDict kv)
  with assms show ?thesis
    by (auto simp: parse_status_def Let_def dest: lookup_HOMEWORK_VERDICTS_raises
        split: if_splits sum.splits option.splits)
qed (use assms in \<open>auto simp: parse_status_def no_attribute_get_def\<close>)

lemma send_message_raises:
  assumes "send_message b m = (evs, Inl e)"
  shows "\<exists>err. b m = Some err \<and> e = Exc TelegramMessageError (txt_send_failed @ err) \<and>
           evs = [Bot_send m]"
  using assms by (auto simp: send_message_def split: option.splits)

text \<open>
  The only exceptions of the \<^verbatim>\<open>NoMessageToTelegram\<close> family that the body of the
  \<^verbatim>\<open>try\<close> raises: the missing cursor, before any message was handed to the bot, and
  the failed delivery of the homework message.
\<close>

lemma try_body_non_notifiable:
  assumes "try_body rp w st = (evs, st1, Inl e)" and "isinstance_NoMessageToTelegram e"
  shows "(e = Exc CurrentDateError txt_no_current_date \<and> evs = []) \<or>
         (\<exists>m err. e = Exc TelegramMessageError (txt_send_failed @ err) \<and>
            evs = [Bot_send m] \<and> bot w m = Some err)"
  using assms
  by (auto simp: try_body_def Let_def no_attribute_get_def
      dest: get_api_answer_raises check_response_raises parse_status_raises send_message_raises
      split: sum.splits json.splits list.splits prod.splits)

lemma lookup_not_found:
  assumes "\<not> unhashable_value v" and "v \<noteq> JStr ''approved''" and "v \<noteq> JStr ''reviewing''"
    and "v \<noteq> JStr ''rejected''"
  shows "lookup_HOMEWORK_VERDICTS v = Inr None"
  using assms by (cases v) (auto simp: HOMEWORK_VERDICTS_def)

lemma lookup_unhashable:
  assumes "unhashable_value v"
  shows "lookup_HOMEWORK_VERDICTS v = Inl (unhashable v)"
  using assms by (cases v) auto

lemma lookup_found:
  assumes "(s, verdict) \<in> set HOMEWORK_VERDICTS"
  shows "lookup_HOMEWORK_VERDICTS (JStr s) = Inr (Some verdict)"
  using assms by (auto simp: HOMEWORK_VERDICTS_def)

subsection \<open>The variables of the loop\<close>

lemma try_body_keeps:
  assumes "try_body rp w st = (evs, st1, r)"
  shows "last_error st1 = last_error st \<and> next_obj st1 = next_obj st"
  using assms
  by (auto simp: try_body_def Let_def split: sum.splits json.splits list.splits prod.splits)

lemma state_ok_initial: "state_ok (initial_state t)"
  by (simp add: state_ok_def initial_state_def)

lemma state_ok_py_ne:
  assumes "state_ok st"
  shows "py_ne (last_error st) (next_obj st, e)"
  using assms by (cases "last_error st") (auto simp: state_ok_def)

lemma try_body_state_ok:
  assumes "try_body rp w st = (evs, st1, r)" and "state_ok st"
  shows "state_ok st1"
  using assms(2) try_body_keeps [OF assms(1)]
  by (auto simp: state_ok_def split: option.splits)

lemma main_iteration_state_ok:
  assumes "main_iteration rp w st = (evs, st', r)" and "state_ok st"
  shows "state_ok st'"
proof -
  obtain evs1 st1 r1 where t: "try_body rp w st = (evs1, st1, r1)"
    by (cases "try_body rp w st") auto
  have ok1: "state_ok st1" using try_body_state_ok [OF t assms(2)] .
  show ?thesis
    using assms(1) ok1
    by (auto simp: main_iteration_def t Let_def state_ok_def
        split: sum.splits if_splits prod.splits option.splits)
qed

text \<open>Every state that a run from the initial state reaches satisfies \<open>state_ok\<close>.\<close>

lemma main_loop_state_ok:
  assumes "main_loop rp st ws = (evs, st', r)" and "state_ok st"
  shows "state_ok st'"
  using assms
proof (induction ws arbitrary: st evs st' r)
  case Nil
  then show ?case by simp
next
  case (Cons w ws)
  obtain evs1 st1 r1 where i: "main_iteration rp w st = (evs1, st1, r1)"
    by (cases "main_iteration rp w st") auto
  have ok1: "state_ok st1" using main_iteration_state_ok [OF i Cons.prems(2)] .
  show ?case
  proof (cases r1)
    case None
    obtain evs2 st2 r2 where l: "main_loop rp st1 ws = (evs2, st2, r2)"
      by (cases "main_loop rp st1 ws") auto
    from Cons.prems(1) have "st' = st2" by (simp add: i None l)
    with Cons.IH [OF l ok1] show ?thesis by simp
  next
    case (Some e)
    with Cons.prems(1) i have "st' = st1" by simp
    with ok1 show ?thesis by simp
  qed
qed

text \<open>
  In such a state the test \<^verbatim>\<open>last_error != error\<close> is true for the exception of the
  iteration, so the handler of \<^verbatim>\<open>Exception\<close> always calls \<^verbatim>\<open>send_message\<close>.
\<close>

lemma notifiable_always_sent:
  assumes "try_body rp w st = (evs, st1, Inl e)" and "\<not> isinstance_NoMessageToTelegram e"
    and "state_ok st"
  shows "fst (main_iteration rp w st) =
           evs @ [Log ERROR (txt_program_failure @ str_exc rp e)] @
           fst (send_message (bot w) (txt_program_failure @ str_exc rp e)) @ [Sleep RETRY_TIME]"
proof -
  have "state_ok st1" using try_body_state_ok [OF assms(1) assms(3)] .
  then have "py_ne (last_error st1) (next_obj st1, e)" by (rule state_ok_py_ne)
  then show ?thesis
    using assms(2) by (simp add: main_iteration_def assms(1) Let_def split: prod.splits sum.splits)
qed

subsection \<open>The two translations of check_response\<close>

lemma json_of_kind:
  assumes "json_of n h v = Some j"
  shows "(j = JNull \<longleftrightarrow> v = VNone) \<and> type_name j = val_type_name h v"
proof (cases v)
  case (VRef r)
  with assms show ?thesis
    by (cases n; cases "h r") auto
qed (use assms in auto)

lemma those_map_of:
  assumes "those (map (\<lambda>(k, x). map_option (Pair k) (f x)) kv) = Some kv'"
  shows "map_of kv' key = (case map_of kv key of None \<Rightarrow> None | Some x \<Rightarrow> f x)"
  using assms
proof (induction kv arbitrary: kv')
  case Nil
  then show ?case by simp
next
  case (Cons a kv)
  then show ?case
    by (cases a) (auto split: option.splits)
qed

lemma type_name_dict: "type_name j = ''dict'' \<longleftrightarrow> isinstance_dict j"
  by (cases j) simp_all

lemma type_name_list: "type_name j = ''list'' \<longleftrightarrow> isinstance_list j"
  by (cases j) simp_all


lemma those_dict_get:
  assumes "those (map (\<lambda>(k, x). map_option (Pair k) (json_of m h x)) kv) = Some kv'"
  shows "json_of m h (case map_of kv key of None \<Rightarrow> VNone | Some x \<Rightarrow> x) =
           Some (dict_get kv' key)"
  using assms
proof (induction kv arbitrary: kv')
  case Nil
  then show ?case by (simp add: dict_get_def dict_get_default_def)
next
  case (Cons a kv)
  obtain k x where a: "a = (k, x)" by (cases a)
  from Cons.prems a obtain j rest where
    j: "json_of m h x = Some j" and
    r: "those (map (\<lambda>(k, x). map_option (Pair k) (json_of m h x)) kv) = Some rest" and
    kv': "kv' = (k, j) # rest"
    by (auto split: option.splits)
  show ?case
  proof (cases "key = k")
    case True
    with a j kv' show ?thesis by (simp add: dict_get_def dict_get_default_def)
  next
    case False
    with Cons.IH [OF r] a kv' show ?thesis by (simp add: dict_get_def dict_get_default_def)
  qed
qed

lemma json_of_dict:
  assumes "json_of n h v = Some (JDict kv')"
  shows "\<exists>m r kv. n = Suc m \<and> v = VRef r \<and> h r = CDict kv \<and>
           those (map (\<lambda>(k, x). map_option (Pair k) (json_of m h x)) kv) = Some kv'"
proof (cases v)
  case (VRef r)
  with assms show ?thesis
    by (cases n; cases "h r") auto
qed (use assms in auto)

lemma check_response_heap_refines:
  assumes "json_of n h response = Some j"
  shows "(case check_response j of
            Inl e \<Rightarrow> check_response_heap response h = (Inl e, h)
          | Inr homeworks \<Rightarrow>
              (\<exists>hw m. check_response_heap response h = (Inr hw, h) \<and>
                 json_of m h hw = Some (JList homeworks)))"
proof (cases "isinstance_dict j")
  case False
  from json_of_kind [OF assms] have tn: "type_name j = val_type_name h response" by simp
  from False have "type_name j \<noteq> ''dict''" by (simp add: type_name_dict)
  with tn have nd: "val_type_name h response \<noteq> ''dict''" by simp
  from False have "check_response j =
      Inl (Exc TypeError (txt_api_returns @ str_type j @ txt_instead_of_dict))"
    by (cases j) (simp_all add: check_response_def)
  moreover have "check_response_heap response h =
      (Inl (Exc TypeError (txt_api_returns @ str_type j @ txt_instead_of_dict)), h)"
    using nd tn
    by (simp add: check_response_heap_def py_bind_def py_isinstance_dict_def py_str_type_def
        py_raise_def str_type_def)
  ultimately show ?thesis by simp
next
  case True
  then obtain kv' where j: "j = JDict kv'" by (cases j) auto
  from json_of_dict [OF assms [unfolded j]] obtain m r kv where
    n: "n = Suc m" and v: "response = VRef r" and hr: "h r = CDict kv" and
    t: "those (map (\<lambda>(k, x). map_option (Pair k) (json_of m h x)) kv) = Some kv'"
    by blast
  let ?cd = "case map_of kv ''current_date'' of None \<Rightarrow> VNone | Some x \<Rightarrow> x"
  let ?hw = "case map_of kv ''homeworks'' of None \<Rightarrow> VNone | Some x \<Rightarrow> x"
  have cd: "json_of m h ?cd = Some (dict_get kv' ''current_date'')"
    by (rule those_dict_get [OF t])
  have hw: "json_of m h ?hw = Some (dict_get kv' ''homeworks'')"
    by (rule those_dict_get [OF t])
  have cdn: "(dict_get kv' ''current_date'' = JNull) = (?cd = VNone)"
    using json_of_kind [OF cd] by simp
  have hwn: "(dict_get kv' ''homeworks'' = JNull) = (?hw = VNone)"
    using json_of_kind [OF hw] by simp
  have hwt: "val_type_name h ?hw = type_name (dict_get kv' ''homeworks'')"
    using json_of_kind [OF hw] by simp
  have g: "py_get (VRef r) key h =
      (Inr (case map_of kv key of None \<Rightarrow> VNone | Some x \<Rightarrow> x), h)" for key
    by (simp add: py_get_def hr)
  have d: "val_type_name h (VRef r) = ''dict''" by (simp add: hr)
  have heap_eq: "check_response_heap response h =
      (if ?cd = VNone then (Inl (Exc CurrentDateError txt_no_current_date), h)
       else if ?hw = VNone then (Inl (Exc KeyError txt_no_homework), h)
       else if val_type_name h ?hw \<noteq> ''list''
       then (Inl (Exc TypeError (txt_homework_is @ str_type (dict_get kv' ''homeworks'') @
                                 txt_instead_of_list)), h)
       else (Inr ?hw, h))"
    by (simp add: check_response_heap_def v py_bind_def py_isinstance_dict_def hr g
        py_isinstance_list_def py_str_type_def py_raise_def py_return_def str_type_def hwt)
  show ?thesis
  proof (cases "dict_get kv' ''homeworks''")
    case (JList homeworks)
    with hw hwt cdn hwn heap_eq show ?thesis
      by (auto simp: j check_response_def)
  qed (use hwt cdn hwn heap_eq in \<open>auto simp: j check_response_def\<close>)
qed

text \<open>
  The reading of a store is sensitive to what is stored: after a store into the
  response object the response no longer reads as the value it was.
\<close>

lemma json_of_sees_store_update:
  "json_of (Suc (Suc (Suc 0))) (heap_approved(0 := CDict [])) (VRef 0) \<noteq> Some response_approved"
  by (simp add: heap_approved_def response_approved_def)

section \<open>The claims\<close>

subsection \<open>C1: repeated errors\<close>

text \<open>
  Claim C1 says that of two consecutive iterations that raise a notifiable error with the
  same text, at most one calls the notifier. The program does not behave so: the test at
  line 141 compares exception objects, which are never the same object, and not their
  texts. Two iterations in which the endpoint answers with status 500 and the bot
  accepts every message: the same report is logged and sent in both.
\<close>

theorem C1_same_error_sent_twice:
  "main_loop repr_plain (initial_state 0)
     [world (Http_response 500 (Body_json JNull)) 7 None,
      world (Http_response 500 (Body_json JNull)) 8 None] =
   ([Log ERROR report_500, Bot_send report_500, Log INFO txt_send_ok, Sleep RETRY_TIME,
     Log ERROR report_500, Bot_send report_500, Log INFO txt_send_ok, Sleep RETRY_TIME],
    \<lparr>current_timestamp = JInt 0,
       last_error = Some (1, Exc RequestAPIError (txt_request_failed @ unavailable_500)),
       next_obj = 2\<rparr>,
    None)"
  by (simp add: main_iteration_def try_body_def fetch_500 initial_state_def send_message_def
      report_500_def Let_def)

subsection \<open>C2: the cursor when the response has no current_date\<close>

text \<open>
  Claim C2 as stated (the cursor keeps its prior value when the response omits
  \<^verbatim>\<open>current_date\<close>) fails: the cursor was 5, the response has no \<^verbatim>\<open>current_date\<close>,
  the clock shows 99, and the cursor after the iteration is 99.
\<close>

theorem C2_cursor_not_kept:
  "get_api_answer (requests_get (world (Http_response 200 (Body_json response_no_cursor)) 99 None))
      (current_timestamp (initial_state 5)) = Inr (JDict [(''homeworks'', JList [])]) \<and>
   map_of [(''homeworks'', JList [])] ''current_date'' = None \<and>
   current_timestamp (initial_state 5) = JInt 5 \<and>
   current_timestamp (fst (snd (main_iteration repr_plain
      (world (Http_response 200 (Body_json response_no_cursor)) 99 None) (initial_state 5)))) =
     JInt 99"
  by (simp add: fetch_200 main_iteration_def try_body_def response_no_cursor_def
      check_response_def dict_get_def dict_get_default_def Let_def initial_state_def)

text \<open>
  Claim C2, amended: in every iteration whose fetched response is a mapping, the cursor
  after the iteration is the value stored under \<^verbatim>\<open>current_date\<close> when the key is
  present, and the reading of the clock taken in that iteration when the key is absent.
\<close>

theorem C2_cursor_update:
  assumes "get_api_answer (requests_get w) (current_timestamp st) = Inr (JDict kv)"
  shows "current_timestamp (fst (snd (main_iteration rp w st))) =
           (case map_of kv ''current_date'' of None \<Rightarrow> JInt (now w) | Some v \<Rightarrow> v)"
proof -
  obtain evs st1 r where t: "try_body rp w st = (evs, st1, r)"
    by (cases "try_body rp w st") auto
  have c: "current_timestamp st1 = dict_get_default kv ''current_date'' (JInt (now w))"
    using t by (auto simp: try_body_def assms Let_def split: sum.splits list.splits prod.splits)
  have "current_timestamp (fst (snd (main_iteration rp w st))) = current_timestamp st1"
    by (simp add: main_iteration_def t Let_def split: sum.splits prod.splits)
  with c show ?thesis by (simp add: dict_get_default_def)
qed

theorem C2_cursor_update_witness:
  "get_api_answer (requests_get (world (Http_response 200 (Body_json response_empty)) 99 None))
      (current_timestamp (initial_state 5)) =
     Inr (JDict [(''homeworks'', JList []), (''current_date'', JInt 1000)]) \<and>
   current_timestamp (fst (snd (main_iteration repr_plain
      (world (Http_response 200 (Body_json response_empty)) 99 None) (initial_state 5)))) =
     JInt 1000 \<and>
   get_api_answer (requests_get (world (Http_response 200 (Body_json response_no_cursor)) 99 None))
      (current_timestamp (initial_state 5)) = Inr (JDict [(''homeworks'', JList [])]) \<and>
   current_timestamp (fst (snd (main_iteration repr_plain
      (world (Http_response 200 (Body_json response_no_cursor)) 99 None) (initial_state 5)))) =
     JInt 99"
  using C2_cursor_update [of "world (Http_response 200 (Body_json response_empty)) 99 None"
        "initial_state 5" "[(''homeworks'', JList []), (''current_date'', JInt 1000)]" repr_plain]
    C2_cursor_update [of "world (Http_response 200 (Body_json response_no_cursor)) 99 None"
        "initial_state 5" "[(''homeworks'', JList [])]" repr_plain]
  by (simp add: fetch_200 response_empty_def response_no_cursor_def)

subsection \<open>C3: the end-to-end scenarios\<close>

text \<open>
  Claim C3: in an iteration whose fetched response is
  \<^verbatim>\<open>{"homeworks": [{"homework_name": "hw1", "status": "approved"}], "current_date": 1000}\<close>
  the bot is handed exactly the message of scenario 1 and nothing else, and the cursor
  becomes 1000; in an iteration whose fetched response is
  \<^verbatim>\<open>{"homeworks": [], "current_date": 1000}\<close> nothing is sent, nothing is logged as an
  error, no exception leaves the iteration, and the cursor becomes 1000.
\<close>

theorem C3_end_to_end_scenarios:
  "(get_api_answer (requests_get w) (current_timestamp st) = Inr response_approved \<longrightarrow>
      sent (fst (main_iteration rp w st)) = [scenario_1_message] \<and>
      current_timestamp (fst (snd (main_iteration rp w st))) = JInt 1000) \<and>
   (get_api_answer (requests_get w) (current_timestamp st) = Inr response_empty \<longrightarrow>
      main_iteration rp w st = ([Sleep RETRY_TIME], st\<lparr>current_timestamp := JInt 1000\<rparr>, None))"
proof (intro conjI impI)
  assume a: "get_api_answer (requests_get w) (current_timestamp st) = Inr response_approved"
  have t: "try_body rp w st =
      (fst (send_message (bot w) scenario_1_message), st\<lparr>current_timestamp := JInt 1000\<rparr>,
       snd (send_message (bot w) scenario_1_message))"
    by (simp add: try_body_def a response_approved_def check_response_def dict_get_def
        dict_get_default_def parse_status_hw1 Let_def split: prod.splits)
  show "sent (fst (main_iteration rp w st)) = [scenario_1_message]"
    by (cases "bot w scenario_1_message") (simp_all add: main_iteration_def t send_message_def)
  show "current_timestamp (fst (snd (main_iteration rp w st))) = JInt 1000"
    by (cases "bot w scenario_1_message") (simp_all add: main_iteration_def t send_message_def)
next
  assume a: "get_api_answer (requests_get w) (current_timestamp st) = Inr response_empty"
  show "main_iteration rp w st = ([Sleep RETRY_TIME], st\<lparr>current_timestamp := JInt 1000\<rparr>, None)"
    by (simp add: main_iteration_def try_body_def a response_empty_def check_response_def
        dict_get_def dict_get_default_def Let_def)
qed

theorem C3_end_to_end_scenarios_witness:
  "get_api_answer (requests_get (world (Http_response 200 (Body_json response_approved)) 7 None))
      (current_timestamp (initial_state 5)) = Inr response_approved \<and>
   sent (fst (main_iteration repr_plain
      (world (Http_response 200 (Body_json response_approved)) 7 None) (initial_state 5))) =
     [scenario_1_message] \<and>
   current_timestamp (fst (snd (main_iteration repr_plain
      (world (Http_response 200 (Body_json response_approved)) 7 None) (initial_state 5)))) =
     JInt 1000 \<and>
   get_api_answer (requests_get (world (Http_response 200 (Body_json response_empty)) 7 None))
      (current_timestamp (initial_state 5)) = Inr response_empty \<and>
   main_iteration repr_plain
      (world (Http_response 200 (Body_json response_empty)) 7 None) (initial_state 5) =
     ([Sleep RETRY_TIME], \<lparr>current_timestamp = JInt 1000, last_error = None, next_obj = 0\<rparr>, None)"
  using C3_end_to_end_scenarios
      [of "world (Http_response 200 (Body_json response_approved)) 7 None" "initial_state 5"
          repr_plain]
    C3_end_to_end_scenarios
      [of "world (Http_response 200 (Body_json response_empty)) 7 None" "initial_state 5"
          repr_plain]
  by (simp add: fetch_200 initial_state_def)

subsection \<open>C4: the cases of check_response\<close>

text \<open>
  Claim C4 as stated fails where a key is present with the value \<^verbatim>\<open>null\<close>: in
  \<^verbatim>\<open>{"current_date": null, "homeworks": []}\<close> neither key is absent and the homeworks
  value is a sequence, yet the call fails with the missing-cursor error.
\<close>

theorem C4_null_cursor_rejected:
  "map_of [(''current_date'', JNull), (''homeworks'', JList [])] ''current_date'' = Some JNull \<and>
   map_of [(''current_date'', JNull), (''homeworks'', JList [])] ''homeworks'' = Some (JList []) \<and>
   check_response (JDict [(''current_date'', JNull), (''homeworks'', JList [])]) =
     Inl (Exc CurrentDateError txt_no_current_date)"
  by (simp add: check_response_def dict_get_def dict_get_default_def)

text \<open>
  Claim C4, amended: for every input of \<^verbatim>\<open>check_response\<close>, if the value is not a
  mapping the call fails with the wrong-type error; otherwise, if \<^verbatim>\<open>current_date\<close> is
  absent or null, with the missing-cursor error; otherwise, if \<^verbatim>\<open>homeworks\<close> is absent
  or null, with the missing-key error; otherwise, if the homeworks value is not a
  sequence, with the wrong-type error; otherwise it returns the homeworks sequence
  unchanged.
\<close>

theorem C4_check_response_cases:
  "(\<not> isinstance_dict r \<longrightarrow>
      check_response r = Inl (Exc TypeError (txt_api_returns @ str_type r @ txt_instead_of_dict))) \<and>
   (absent_or_null kv ''current_date'' \<longrightarrow>
      check_response (JDict kv) = Inl (Exc CurrentDateError txt_no_current_date)) \<and>
   (\<not> absent_or_null kv ''current_date'' \<and> absent_or_null kv ''homeworks'' \<longrightarrow>
      check_response (JDict kv) = Inl (Exc KeyError txt_no_homework)) \<and>
   (\<not> absent_or_null kv ''current_date'' \<and> map_of kv ''homeworks'' = Some v \<and>
      v \<noteq> JNull \<and> \<not> isinstance_list v \<longrightarrow>
      check_response (JDict kv) =
        Inl (Exc TypeError (txt_homework_is @ str_type v @ txt_instead_of_list))) \<and>
   (\<not> absent_or_null kv ''current_date'' \<and> map_of kv ''homeworks'' = Some (JList hs) \<longrightarrow>
      check_response (JDict kv) = Inr hs)"
proof (intro conjI impI)
  assume "\<not> isinstance_dict r"
  then show "check_response r =
      Inl (Exc TypeError (txt_api_returns @ str_type r @ txt_instead_of_dict))"
    by (cases r) (simp_all add: check_response_def)
next
  assume "absent_or_null kv ''current_date''"
  then show "check_response (JDict kv) = Inl (Exc CurrentDateError txt_no_current_date)"
    by (auto simp: check_response_def absent_or_null_def dict_get_def dict_get_default_def)
next
  assume "\<not> absent_or_null kv ''current_date'' \<and> absent_or_null kv ''homeworks''"
  then show "check_response (JDict kv) = Inl (Exc KeyError txt_no_homework)"
    by (auto simp: check_response_def absent_or_null_def dict_get_def dict_get_default_def
        split: option.splits)
next
  assume "\<not> absent_or_null kv ''current_date'' \<and> map_of kv ''homeworks'' = Some v \<and>
      v \<noteq> JNull \<and> \<not> isinstance_list v"
  then show "check_response (JDict kv) =
        Inl (Exc TypeError (txt_homework_is @ str_type v @ txt_instead_of_list))"
    by (cases v) (auto simp: check_response_def absent_or_null_def dict_get_def
        dict_get_default_def split: option.splits)
next
  assume "\<not> absent_or_null kv ''current_date'' \<and> map_of kv ''homeworks'' = Some (JList hs)"
  then show "check_response (JDict kv) = Inr hs"
    by (auto simp: check_response_def absent_or_null_def dict_get_def dict_get_default_def
        split: option.splits)
qed

theorem C4_check_response_cases_witness:
  "\<not> isinstance_dict (JList []) \<and>
   check_response (JList []) =
     Inl (Exc TypeError (txt_api_returns @ str_type (JList []) @ txt_instead_of_dict)) \<and>
   absent_or_null [(''homeworks'', JList [])] ''current_date'' \<and>
   check_response (JDict [(''homeworks'', JList [])]) =
     Inl (Exc CurrentDateError txt_no_current_date) \<and>
   \<not> absent_or_null [(''current_date'', JInt 1000)] ''current_date'' \<and>
   absent_or_null [(''current_date'', JInt 1000)] ''homeworks'' \<and>
   check_response (JDict [(''current_date'', JInt 1000)]) = Inl (Exc KeyError txt_no_homework) \<and>
   \<not> absent_or_null [(''current_date'', JInt 1000), (''homeworks'', JStr ''x'')] ''current_date'' \<and>
   map_of [(''current_date'', JInt 1000), (''homeworks'', JStr ''x'')] ''homeworks'' =
     Some (JStr ''x'') \<and>
   JStr ''x'' \<noteq> JNull \<and> \<not> isinstance_list (JStr ''x'') \<and>
   check_response (JDict [(''current_date'', JInt 1000), (''homeworks'', JStr ''x'')]) =
     Inl (Exc TypeError (txt_homework_is @ str_type (JStr ''x'') @ txt_instead_of_list)) \<and>
   \<not> absent_or_null [(''current_date'', JInt 1000), (''homeworks'', JList [JInt 1])]
        ''current_date'' \<and>
   map_of [(''current_date'', JInt 1000), (''homeworks'', JList [JInt 1])] ''homeworks'' =
     Some (JList [JInt 1]) \<and>
   check_response (JDict [(''current_date'', JInt 1000), (''homeworks'', JList [JInt 1])]) =
     Inr [JInt 1]"
  using C4_check_response_cases [of "JList []" "[(''homeworks'', JList [])]" JNull "[]"]
    C4_check_response_cases [of JNull "[(''current_date'', JInt 1000)]" JNull "[]"]
    C4_check_response_cases
      [of JNull "[(''current_date'', JInt 1000), (''homeworks'', JStr ''x'')]" "JStr ''x''" "[]"]
    C4_check_response_cases
      [of JNull "[(''current_date'', JInt 1000), (''homeworks'', JList [JInt 1])]" JNull
          "[JInt 1]"]
  by (simp add: absent_or_null_def)

subsection \<open>C5: the cases of parse_status\<close>

text \<open>
  Claim C5 as stated fails in three places. A status that is a list is not one of the
  three codes, and the call fails with the interpreter's \<^verbatim>\<open>TypeError\<close> for an
  unhashable key, not with the unknown-status error. A name that is present with the
  value \<^verbatim>\<open>null\<close>, beside the status \<^verbatim>\<open>approved\<close>, gives the missing-name error and no
  message. A record with neither a name nor a known status gives the missing-name error,
  not the unknown-status error.
\<close>

theorem C5_other_failures:
  "parse_status repr_plain (JDict [(''homework_name'', JStr ''hw1''), (''status'', JList [])]) =
     Inl (Exc TypeError (''unhashable type: '' @ [CHR 0x27] @ ''list'' @ [CHR 0x27])) \<and>
   parse_status repr_plain (JDict [(''homework_name'', JNull), (''status'', JStr ''approved'')]) =
     Inl (Exc KeyError txt_no_homework_name) \<and>
   parse_status repr_plain (JDict [(''status'', JStr ''bogus'')]) =
     Inl (Exc KeyError txt_no_homework_name)"
  by (simp add: parse_status_def dict_get_def dict_get_default_def Let_def unhashable_def)

text \<open>
  Claim C5, amended: for every homework record (a mapping), if the name is absent or
  null the call fails with the missing-name error; otherwise, if the status is a list or
  a mapping, with the \<^verbatim>\<open>TypeError\<close> for an unhashable key; otherwise, if the status is
  absent, null or anything else than one of the strings approved, reviewing, rejected,
  with the unknown-status error that names the status; otherwise it returns the fixed
  sentence, which contains the printed name and the exact verdict text of that status.
\<close>

theorem C5_parse_status_cases:
  "(absent_or_null kv ''homework_name'' \<longrightarrow>
      parse_status rp (JDict kv) = Inl (Exc KeyError txt_no_homework_name)) \<and>
   (\<not> absent_or_null kv ''homework_name'' \<and> unhashable_value (dict_get kv ''status'') \<longrightarrow>
      parse_status rp (JDict kv) = Inl (unhashable (dict_get kv ''status''))) \<and>
   (\<not> absent_or_null kv ''homework_name'' \<and> \<not> unhashable_value (dict_get kv ''status'') \<and>
      dict_get kv ''status'' \<notin> {JStr ''approved'', JStr ''reviewing'', JStr ''rejected''} \<longrightarrow>
      parse_status rp (JDict kv) =
        Inl (Exc KeyError (txt_status @ py_str rp (dict_get kv ''status'') @ txt_not_found))) \<and>
   (map_of kv ''homework_name'' = Some name \<and> name \<noteq> JNull \<and>
      map_of kv ''status'' = Some (JStr s) \<and>
      (s, verdict) \<in> {(''approved'', verdict_approved), (''reviewing'', verdict_reviewing),
                      (''rejected'', verdict_rejected)} \<longrightarrow>
      (\<exists>message. parse_status rp (JDict kv) = Inr message \<and>
         message = txt_status_changed @ py_str rp name @ [CHR 0x22] @ ''. '' @ verdict \<and>
         sublist (py_str rp name) message \<and> sublist verdict message))"
proof (intro conjI impI)
  assume "absent_or_null kv ''homework_name''"
  then show "parse_status rp (JDict kv) = Inl (Exc KeyError txt_no_homework_name)"
    by (auto simp: parse_status_def absent_or_null_def dict_get_def dict_get_default_def Let_def)
next
  assume a: "\<not> absent_or_null kv ''homework_name'' \<and> unhashable_value (dict_get kv ''status'')"
  then have n: "dict_get kv ''homework_name'' \<noteq> JNull"
    by (auto simp: absent_or_null_def dict_get_def dict_get_default_def split: option.splits)
  from a have "lookup_HOMEWORK_VERDICTS (dict_get kv ''status'') =
      Inl (unhashable (dict_get kv ''status''))"
    by (simp add: lookup_unhashable)
  with n show "parse_status rp (JDict kv) = Inl (unhashable (dict_get kv ''status''))"
    by (simp add: parse_status_def Let_def)
next
  assume a: "\<not> absent_or_null kv ''homework_name'' \<and>
      \<not> unhashable_value (dict_get kv ''status'') \<and>
      dict_get kv ''status'' \<notin> {JStr ''approved'', JStr ''reviewing'', JStr ''rejected''}"
  then have n: "dict_get kv ''homework_name'' \<noteq> JNull"
    by (auto simp: absent_or_null_def dict_get_def dict_get_default_def split: option.splits)
  from a have "lookup_HOMEWORK_VERDICTS (dict_get kv ''status'') = Inr None"
    by (intro lookup_not_found) auto
  with n show "parse_status rp (JDict kv) =
        Inl (Exc KeyError (txt_status @ py_str rp (dict_get kv ''status'') @ txt_not_found))"
    by (simp add: parse_status_def Let_def)
next
  assume a: "map_of kv ''homework_name'' = Some name \<and> name \<noteq> JNull \<and>
      map_of kv ''status'' = Some (JStr s) \<and>
      (s, verdict) \<in> {(''approved'', verdict_approved), (''reviewing'', verdict_reviewing),
                      (''rejected'', verdict_rejected)}"
  then have n: "dict_get kv ''homework_name'' = name" and st: "dict_get kv ''status'' = JStr s"
    by (simp_all add: dict_get_def dict_get_default_def)
  from a have "(s, verdict) \<in> set HOMEWORK_VERDICTS"
    by (simp add: HOMEWORK_VERDICTS_def)
  then have l: "lookup_HOMEWORK_VERDICTS (JStr s) = Inr (Some verdict)"
    by (rule lookup_found)
  have p: "parse_status rp (JDict kv) =
      Inr (txt_status_changed @ py_str rp name @ [CHR 0x22] @ ''. '' @ verdict)"
    using a by (simp add: parse_status_def Let_def n st l del: lookup_HOMEWORK_VERDICTS.simps)
  have s1: "sublist (py_str rp name)
      (txt_status_changed @ py_str rp name @ [CHR 0x22] @ ''. '' @ verdict)"
    by (rule sublist_appendI)
  have "sublist verdict
      ((txt_status_changed @ py_str rp name @ [CHR 0x22] @ ''. '') @ verdict @ [])"
    by (rule sublist_appendI)
  then have s2: "sublist verdict
      (txt_status_changed @ py_str rp name @ [CHR 0x22] @ ''. '' @ verdict)"
    by simp
  from p s1 s2 show "\<exists>message. parse_status rp (JDict kv) = Inr message \<and>
         message = txt_status_changed @ py_str rp name @ [CHR 0x22] @ ''. '' @ verdict \<and>
         sublist (py_str rp name) message \<and> sublist verdict message"
    by blast
qed

theorem C5_parse_status_cases_witness:
  "absent_or_null [(''status'', JStr ''approved'')] ''homework_name'' \<and>
   parse_status repr_plain (JDict [(''status'', JStr ''approved'')]) =
     Inl (Exc KeyError txt_no_homework_name) \<and>
   \<not> absent_or_null [(''homework_name'', JStr ''hw1''), (''status'', JDict [])] ''homework_name'' \<and>
   unhashable_value (dict_get [(''homework_name'', JStr ''hw1''), (''status'', JDict [])] ''status'') \<and>
   parse_status repr_plain (JDict [(''homework_name'', JStr ''hw1''), (''status'', JDict [])]) =
     Inl (unhashable (JDict [])) \<and>
   \<not> absent_or_null [(''homework_name'', JStr ''hw1''), (''status'', JStr ''bogus'')]
        ''homework_name'' \<and>
   \<not> unhashable_value
        (dict_get [(''homework_name'', JStr ''hw1''), (''status'', JStr ''bogus'')] ''status'') \<and>
   dict_get [(''homework_name'', JStr ''hw1''), (''status'', JStr ''bogus'')] ''status''
     \<notin> {JStr ''approved'', JStr ''reviewing'', JStr ''rejected''} \<and>
   parse_status repr_plain (JDict [(''homework_name'', JStr ''hw1''), (''status'', JStr ''bogus'')]) =
     Inl (Exc KeyError (txt_status @ ''bogus'' @ txt_not_found)) \<and>
   map_of [(''homework_name'', JStr ''hw1''), (''status'', JStr ''rejected'')] ''homework_name'' =
     Some (JStr ''hw1'') \<and>
   map_of [(''homework_name'', JStr ''hw1''), (''status'', JStr ''rejected'')] ''status'' =
     Some (JStr ''rejected'') \<and>
   parse_status repr_plain (JDict [(''homework_name'', JStr ''hw1''), (''status'', JStr ''rejected'')]) =
     Inr (txt_status_changed @ ''hw1'' @ [CHR 0x22] @ ''. '' @ verdict_rejected) \<and>
   sublist ''hw1'' (txt_status_changed @ ''hw1'' @ [CHR 0x22] @ ''. '' @ verdict_rejected) \<and>
   sublist verdict_rejected (txt_status_changed @ ''hw1'' @ [CHR 0x22] @ ''. '' @ verdict_rejected)"
  using C5_parse_status_cases [of "[(''status'', JStr ''approved'')]" repr_plain JNull "[]" "[]"]
    C5_parse_status_cases
      [of "[(''homework_name'', JStr ''hw1''), (''status'', JDict [])]" repr_plain JNull "[]" "[]"]
    C5_parse_status_cases
      [of "[(''homework_name'', JStr ''hw1''), (''status'', JStr ''bogus'')]" repr_plain JNull
          "[]" "[]"]
    C5_parse_status_cases
      [of "[(''homework_name'', JStr ''hw1''), (''status'', JStr ''rejected'')]" repr_plain
          "JStr ''hw1''" "''rejected''" verdict_rejected]
  by (simp add: absent_or_null_def dict_get_def dict_get_default_def)

subsection \<open>C6: errors that are only logged\<close>

text \<open>
  Claim C6: in every iteration in which the body of the \<^verbatim>\<open>try\<close> raises an exception of
  the \<^verbatim>\<open>NoMessageToTelegram\<close> family (by \<open>try_body_non_notifiable\<close> that is the failed
  delivery of the homework message or the missing cursor), the iteration adds one error
  entry to the log and the sleep, and nothing else: the bot is handed no message after
  the exception was raised, \<^verbatim>\<open>last_error\<close> keeps its value, and no exception leaves
  the iteration.
\<close>

theorem C6_non_notifiable_only_logged:
  assumes "try_body rp w st = (evs, st1, Inl e)" and "isinstance_NoMessageToTelegram e"
  shows "main_iteration rp w st =
           (evs @ [Log ERROR (txt_program_failure @ str_exc rp e), Sleep RETRY_TIME], st1, None) \<and>
         sent (fst (main_iteration rp w st)) = sent evs \<and>
         last_error (fst (snd (main_iteration rp w st))) = last_error st"
proof -
  have m: "main_iteration rp w st =
           (evs @ [Log ERROR (txt_program_failure @ str_exc rp e), Sleep RETRY_TIME], st1, None)"
    using assms by (simp add: main_iteration_def)
  from m try_body_keeps [OF assms(1)] show ?thesis
    by (simp add: sent_log_sleep)
qed

theorem C6_non_notifiable_only_logged_witness:
  "try_body repr_plain (world (Http_response 200 (Body_json response_no_cursor)) 99 None)
      \<lparr>current_timestamp = JInt 5, last_error = Some (3, Exc JSONError ''x''), next_obj = 4\<rparr> =
     ([], \<lparr>current_timestamp = JInt 99, last_error = Some (3, Exc JSONError ''x''), next_obj = 4\<rparr>,
      Inl (Exc CurrentDateError txt_no_current_date)) \<and>
   isinstance_NoMessageToTelegram (Exc CurrentDateError txt_no_current_date) \<and>
   main_iteration repr_plain (world (Http_response 200 (Body_json response_no_cursor)) 99 None)
      \<lparr>current_timestamp = JInt 5, last_error = Some (3, Exc JSONError ''x''), next_obj = 4\<rparr> =
     ([Log ERROR (txt_program_failure @ txt_no_current_date), Sleep RETRY_TIME],
      \<lparr>current_timestamp = JInt 99, last_error = Some (3, Exc JSONError ''x''), next_obj = 4\<rparr>,
      None) \<and>
   try_body repr_plain
      (world (Http_response 200 (Body_json response_approved)) 99 (Some ''Timed out''))
      (initial_state 5) =
     ([Bot_send scenario_1_message],
      \<lparr>current_timestamp = JInt 1000, last_error = None, next_obj = 0\<rparr>,
      Inl (Exc TelegramMessageError (txt_send_failed @ ''Timed out''))) \<and>
   isinstance_NoMessageToTelegram (Exc TelegramMessageError (txt_send_failed @ ''Timed out'')) \<and>
   main_iteration repr_plain
      (world (Http_response 200 (Body_json response_approved)) 99 (Some ''Timed out''))
      (initial_state 5) =
     ([Bot_send scenario_1_message,
       Log ERROR (txt_program_failure @ txt_send_failed @ ''Timed out''), Sleep RETRY_TIME],
      \<lparr>current_timestamp = JInt 1000, last_error = None, next_obj = 0\<rparr>, None)"
proof -
  have t1: "try_body repr_plain (world (Http_response 200 (Body_json response_no_cursor)) 99 None)
      \<lparr>current_timestamp = JInt 5, last_error = Some (3, Exc JSONError ''x''), next_obj = 4\<rparr> =
     ([], \<lparr>current_timestamp = JInt 99, last_error = Some (3, Exc JSONError ''x''), next_obj = 4\<rparr>,
      Inl (Exc CurrentDateError txt_no_current_date))"
    by (simp add: try_body_def fetch_200 response_no_cursor_def check_response_def dict_get_def
        dict_get_default_def Let_def)
  have n1: "isinstance_NoMessageToTelegram (Exc CurrentDateError txt_no_current_date)"
    by simp
  have t2: "try_body repr_plain
      (world (Http_response 200 (Body_json response_approved)) 99 (Some ''Timed out''))
      (initial_state 5) =
     ([Bot_send scenario_1_message],
      \<lparr>current_timestamp = JInt 1000, last_error = None, next_obj = 0\<rparr>,
      Inl (Exc TelegramMessageError (txt_send_failed @ ''Timed out'')))"
    by (simp add: try_body_def fetch_200 response_approved_def check_response_def dict_get_def
        dict_get_default_def parse_status_hw1 send_message_def initial_state_def Let_def)
  have n2: "isinstance_NoMessageToTelegram
      (Exc TelegramMessageError (txt_send_failed @ ''Timed out''))"
    by simp
  show ?thesis
    using C6_non_notifiable_only_logged [OF t1 n1] C6_non_notifiable_only_logged [OF t2 n2]
      t1 t2
    by simp
qed

subsection \<open>C7: a failed report of an error\<close>

text \<open>
  Claim C7 says that when the report of a notifiable error cannot be delivered, the
  failure is only logged and the loop goes on. The program does not behave so: the
  \<^verbatim>\<open>TelegramMessageError\<close> is raised inside the handler of \<^verbatim>\<open>Exception\<close>, where no
  clause catches it, and it ends the loop. The endpoint answers with status 500 and the
  bot refuses the report; the world of the second iteration is never consulted.
\<close>

theorem C7_failed_report_ends_loop:
  "main_loop repr_plain (initial_state 0)
     [world (Http_response 500 (Body_json JNull)) 7 (Some ''Timed out''),
      world (Http_response 200 (Body_json response_empty)) 8 None] =
   ([Log ERROR report_500, Bot_send report_500, Sleep RETRY_TIME],
    \<lparr>current_timestamp = JInt 0, last_error = None, next_obj = 1\<rparr>,
    Some (Exc TelegramMessageError (txt_send_failed @ ''Timed out'')))"
  by (simp add: main_iteration_def try_body_def fetch_500 initial_state_def send_message_def
      report_500_def Let_def)

subsection \<open>C8: a status other than OK\<close>

text \<open>
  Claim C8 as stated fails in its last part: the error for a status other than 200 is
  not classified apart from the error for a failure of the transport. Both are a
  \<^verbatim>\<open>RequestAPIError\<close> whose text is the same prefix followed by the text of the caught
  exception; a refused connection gives the same class as status 500, and a transport
  failure with the text of the status message gives the very same error.
\<close>

theorem C8_same_class_as_transport_failure:
  "get_api_answer (requests_get (world (Http_response 500 (Body_json JNull)) 0 None)) (JInt 0) =
     Inl (Exc RequestAPIError (txt_request_failed @ unavailable_500)) \<and>
   get_api_answer (requests_get (world (Request_raises ''Connection refused'') 0 None)) (JInt 0) =
     Inl (Exc RequestAPIError (txt_request_failed @ ''Connection refused'')) \<and>
   get_api_answer (requests_get (world (Request_raises unavailable_500) 0 None)) (JInt 0) =
     get_api_answer (requests_get (world (Http_response 500 (Body_json JNull)) 0 None)) (JInt 0)"
  by (simp add: fetch_500) (simp add: get_api_answer_def get_api_answer_try_def)

text \<open>
  Claim C8, amended: for every fetch whose status is not 200, \<^verbatim>\<open>get_api_answer\<close> raises
  a \<^verbatim>\<open>RequestAPIError\<close>, the class it also raises for a failure of the transport,
  whose text is the request-failed prefix followed by a message that carries the
  endpoint URL and the status code; the class differs from the \<^verbatim>\<open>JSONError\<close> raised for
  a body that does not decode.
\<close>

theorem C8_status_not_ok:
  assumes "get c = Http_response status_code body" and "status_code \<noteq> 200"
  shows "\<exists>message.
           get_api_answer get c = Inl (Exc RequestAPIError (txt_request_failed @ message)) \<and>
           message = txt_endpoint @ ENDPOINT @ txt_unavailable @ txt_response_code @
                     str_int status_code \<and>
           sublist ENDPOINT message \<and> sublist (str_int status_code) message \<and>
           get_api_answer (\<lambda>t. Request_raises m) c =
             Inl (Exc RequestAPIError (txt_request_failed @ m)) \<and>
           get_api_answer (\<lambda>t. Http_response 200 (Body_invalid m)) c =
             Inl (Exc JSONError (txt_json_failed @ m)) \<and>
           RequestAPIError \<noteq> JSONError"
proof -
  let ?message = "txt_endpoint @ ENDPOINT @ txt_unavailable @ txt_response_code @
                  str_int status_code"
  have r: "get_api_answer get c = Inl (Exc RequestAPIError (txt_request_failed @ ?message))"
    using assms by (simp add: get_api_answer_def get_api_answer_try_def)
  have "sublist ENDPOINT
      (txt_endpoint @ ENDPOINT @ (txt_unavailable @ txt_response_code @ str_int status_code))"
    by (rule sublist_appendI)
  then have s1: "sublist ENDPOINT ?message" by simp
  have "sublist (str_int status_code)
      ((txt_endpoint @ ENDPOINT @ txt_unavailable @ txt_response_code) @ str_int status_code @ [])"
    by (rule sublist_appendI)
  then have s2: "sublist (str_int status_code) ?message" by simp
  have t: "get_api_answer (\<lambda>t. Request_raises m) c =
      Inl (Exc RequestAPIError (txt_request_failed @ m))"
    by (simp add: get_api_answer_def get_api_answer_try_def)
  have j: "get_api_answer (\<lambda>t. Http_response 200 (Body_invalid m)) c =
      Inl (Exc JSONError (txt_json_failed @ m))"
    by (simp add: get_api_answer_def get_api_answer_try_def)
  from r s1 s2 t j show ?thesis by simp
qed

theorem C8_status_not_ok_witness:
  "requests_get (world (Http_response 500 (Body_json JNull)) 0 None) (JInt 0) =
     Http_response 500 (Body_json JNull) \<and>
   (500 :: int) \<noteq> 200 \<and>
   get_api_answer (requests_get (world (Http_response 500 (Body_json JNull)) 0 None)) (JInt 0) =
     Inl (Exc RequestAPIError
            (txt_request_failed @ txt_endpoint @ ENDPOINT @ txt_unavailable @
             txt_response_code @ ''500'')) \<and>
   sublist ENDPOINT (txt_endpoint @ ENDPOINT @ txt_unavailable @ txt_response_code @ ''500'') \<and>
   sublist ''500'' (txt_endpoint @ ENDPOINT @ txt_unavailable @ txt_response_code @ ''500'')"
  using C8_status_not_ok
      [of "requests_get (world (Http_response 500 (Body_json JNull)) 0 None)" "JInt 0" 500
          "Body_json JNull" "[]"]
  by (simp add: str_int_500)

subsection \<open>C9: check_response twice\<close>

text \<open>
  Claim C9: for every response that \<^verbatim>\<open>check_response\<close> accepts, held as objects in a
  store, two calls one after the other return the same object, which holds the accepted
  homework sequence after the first call and after the second; and each call leaves the
  store as it found it, so the response is the same value after both.
\<close>

theorem C9_check_response_twice:
  assumes "json_of n h response = Some j" and "check_response j = Inr homeworks"
  shows "(case check_response_heap response h of
            (first, h1) \<Rightarrow>
              (case check_response_heap response h1 of
                 (second, h2) \<Rightarrow>
                   (\<exists>hw m. first = Inr hw \<and> second = Inr hw \<and>
                      json_of m h1 hw = Some (JList homeworks) \<and>
                      json_of m h2 hw = Some (JList homeworks)) \<and>
                   h1 = h \<and> h2 = h \<and> json_of n h2 response = Some j))"
proof -
  from check_response_heap_refines [OF assms(1)] assms(2) obtain hw m where
    c: "check_response_heap response h = (Inr hw, h)" and
    l: "json_of m h hw = Some (JList homeworks)"
    by auto
  from c l assms(1) show ?thesis by auto
qed

theorem C9_check_response_twice_witness:
  "json_of (Suc (Suc (Suc 0))) heap_approved (VRef 0) = Some response_approved \<and>
   check_response response_approved =
     Inr [JDict [(''homework_name'', JStr ''hw1''), (''status'', JStr ''approved'')]] \<and>
   (case check_response_heap (VRef 0) heap_approved of
      (first, h1) \<Rightarrow>
        (case check_response_heap (VRef 0) h1 of
           (second, h2) \<Rightarrow>
             (\<exists>hw m. first = Inr hw \<and> second = Inr hw \<and>
                json_of m h1 hw =
                  Some (JList [JDict [(''homework_name'', JStr ''hw1''),
                                      (''status'', JStr ''approved'')]]) \<and>
                json_of m h2 hw =
                  Some (JList [JDict [(''homework_name'', JStr ''hw1''),
                                      (''status'', JStr ''approved'')]])) \<and>
             h1 = heap_approved \<and> h2 = heap_approved \<and>
             json_of (Suc (Suc (Suc 0))) h2 (VRef 0) = Some response_approved)) \<and>
   check_response_heap (VRef 0) heap_approved = (Inr (VRef 1), heap_approved)"
proof -
  have j: "json_of (Suc (Suc (Suc 0))) heap_approved (VRef 0) = Some response_approved"
    by (simp add: heap_approved_def response_approved_def)
  have c: "check_response response_approved =
     Inr [JDict [(''homework_name'', JStr ''hw1''), (''status'', JStr ''approved'')]]"
    by (simp add: check_response_def response_approved_def dict_get_def dict_get_default_def)
  have v: "check_response_heap (VRef 0) heap_approved = (Inr (VRef 1), heap_approved)"
    by (simp add: check_response_heap_def py_bind_def py_isinstance_dict_def py_get_def
        py_isinstance_list_def py_return_def heap_approved_def)
  show ?thesis
    using C9_check_response_twice [OF j c] j c v by simp
qed

subsection \<open>C10: a response that is not a mapping\<close>

text \<open>
  Claim C10: in every iteration whose fetched response is not a mapping, the cursor
  update of line 132 raises the \<^verbatim>\<open>AttributeError\<close> for the missing \<^verbatim>\<open>get\<close> before
  \<^verbatim>\<open>check_response\<close> is reached: the body of the \<^verbatim>\<open>try\<close> ends with that exception,
  no event and the variables unchanged; it is not the \<^verbatim>\<open>TypeError\<close> that
  \<^verbatim>\<open>check_response\<close> raises for this value; and the one message handed to the bot in
  the iteration is the report of the \<^verbatim>\<open>AttributeError\<close>.
\<close>

theorem C10_non_mapping_response:
  assumes "get_api_answer (requests_get w) (current_timestamp st) = Inr r"
    and "\<not> isinstance_dict r" and "state_ok st"
  shows "try_body rp w st = ([], st, Inl (no_attribute_get r)) \<and>
         exc_class (no_attribute_get r) = AttributeError \<and>
         check_response r =
           Inl (Exc TypeError (txt_api_returns @ str_type r @ txt_instead_of_dict)) \<and>
         no_attribute_get r \<noteq>
           Exc TypeError (txt_api_returns @ str_type r @ txt_instead_of_dict) \<and>
         sent (fst (main_iteration rp w st)) =
           [txt_program_failure @ exc_arg (no_attribute_get r)]"
proof -
  have t: "try_body rp w st = ([], st, Inl (no_attribute_get r))"
    using assms(1,2) by (cases r) (simp_all add: try_body_def)
  have n: "\<not> isinstance_NoMessageToTelegram (no_attribute_get r)"
    by (simp add: no_attribute_get_def)
  have c: "check_response r =
      Inl (Exc TypeError (txt_api_returns @ str_type r @ txt_instead_of_dict))"
    using assms(2) by (cases r) (simp_all add: check_response_def)
  have "sent (fst (main_iteration rp w st)) =
      [txt_program_failure @ exc_arg (no_attribute_get r)]"
    by (cases "bot w (txt_program_failure @ exc_arg (no_attribute_get r))")
       (simp_all add: notifiable_always_sent [OF t n assms(3)] send_message_def
          no_attribute_get_def)
  with t c show ?thesis by (simp add: no_attribute_get_def)
qed

theorem C10_non_mapping_response_witness:
  "get_api_answer (requests_get (world (Http_response 200 (Body_json (JList []))) 7 None))
      (current_timestamp (initial_state 5)) = Inr (JList []) \<and>
   \<not> isinstance_dict (JList []) \<and> state_ok (initial_state 5) \<and>
   try_body repr_plain (world (Http_response 200 (Body_json (JList []))) 7 None) (initial_state 5) =
     ([], initial_state 5,
      Inl (Exc AttributeError
            ([CHR 0x27] @ ''list'' @ [CHR 0x27] @ '' object has no attribute '' @
             [CHR 0x27] @ ''get'' @ [CHR 0x27]))) \<and>
   sent (fst (main_iteration repr_plain
      (world (Http_response 200 (Body_json (JList []))) 7 None) (initial_state 5))) =
     [txt_program_failure @ [CHR 0x27] @ ''list'' @ [CHR 0x27] @ '' object has no attribute '' @
      [CHR 0x27] @ ''get'' @ [CHR 0x27]]"
proof -
  have f: "get_api_answer (requests_get (world (Http_response 200 (Body_json (JList []))) 7 None))
      (current_timestamp (initial_state 5)) = Inr (JList [])"
    by (rule fetch_200)
  have d: "\<not> isinstance_dict (JList [])" by simp
  show ?thesis
    using C10_non_mapping_response [OF f d state_ok_initial, of repr_plain] f
    by (simp add: no_attribute_get_def state_ok_initial)
qed

end
